theory Spec2Isabelle
  imports Main
begin

section \<open>Stored values\<close>

text \<open>
  The panel keeps JSON objects in a key-value store. A property that may be absent
  from an object (JavaScript \<^verbatim>\<open>undefined\<close>) is an \<open>option\<close> field: \<open>None\<close> is
  ``absent''. Strings are sequences of code units below 256; \<open>length\<close> is JavaScript's
  \<^verbatim>\<open>.length\<close>. Numbers are restricted to integers.
\<close>

record node =
  node_id :: "string option"
  address :: "string option"
  port :: "string option"
  apiKey :: "string option"

text \<open>An entry of the image catalogue (key \<^verbatim>\<open>images\<close>); \<^verbatim>\<open>{}\<close> is \<open>no_image\<close>.\<close>

record image =
  img_Image :: "string option"
  Scripts :: "string option"
  img_AltImages :: "string list option"

definition no_image :: image where
  "no_image = \<lparr>img_Image = None, Scripts = None, img_AltImages = None\<rparr>"

text \<open>
  \<^verbatim>\<open>Env\<close> is an array of \<^verbatim>\<open>KEY=VALUE\<close> strings; the reinstall path stores
  \<^verbatim>\<open>Env || {}\<close>, so the empty object is a possible value as well.
\<close>

datatype env_value = EnvArray "string list" | EnvObject

record inst =
  Name :: "string option"
  InstId :: "string option"
  Node :: "node option"
  User :: "string option"
  ContainerId :: "string option"
  VolumeId :: "string option"
  Memory :: "int option"
  Cpu :: "int option"
  Ports :: "string option"
  Primary :: "string option"
  InstImage :: "string option"
  AltImages :: "string list option"
  imageData :: "image option"
  Env :: "env_value option"
  suspended :: "bool option"
  currentimage :: "string option"
  createdAt :: "string option"
  updatedAt :: "string option"

subsection \<open>JavaScript coercions used by the handlers\<close>

text \<open>\<^verbatim>\<open>!x\<close> on a string-or-undefined: falsy when absent or empty.\<close>

definition truthy :: "string option \<Rightarrow> bool" where
  "truthy x = (case x of None \<Rightarrow> False | Some v \<Rightarrow> v \<noteq> [])"

text \<open>\<^verbatim>\<open>!x\<close> on a number-or-undefined: falsy when absent or zero.\<close>

definition truthy_num :: "int option \<Rightarrow> bool" where
  "truthy_num x = (case x of None \<Rightarrow> False | Some n \<Rightarrow> n \<noteq> 0)"

text \<open>A value interpolated into a template literal: \<^verbatim>\<open>`${x}`\<close>.\<close>

definition tmpl :: "string option \<Rightarrow> string" where
  "tmpl x = (case x of None \<Rightarrow> ''undefined'' | Some v \<Rightarrow> v)"

text \<open>\<^verbatim>\<open>value || ""\<close>.\<close>

definition or_empty :: "string option \<Rightarrow> string" where
  "or_empty x = (case x of None \<Rightarrow> [] | Some v \<Rightarrow> v)"

text \<open>\<^verbatim>\<open>a || b\<close> on strings and on numbers.\<close>

definition or_else :: "string option \<Rightarrow> string option \<Rightarrow> string option" where
  "or_else a b = (if truthy a then a else b)"

definition or_else_num :: "int option \<Rightarrow> int option \<Rightarrow> int option" where
  "or_else_num a b = (if truthy_num a then a else b)"

text \<open>
  \<^verbatim>\<open>parseInt(n)\<close> on a number first converts it to a string. Below \<^verbatim>\<open>1e21\<close> that is
  the decimal numeral, read back in full. From \<^verbatim>\<open>1e21\<close> on it is in exponent form
  (\<^verbatim>\<open>1e+21\<close>, \<^verbatim>\<open>2.5e+22\<close>), of which \<^verbatim>\<open>parseInt\<close> reads the leading digit only.
\<close>

fun leading_digit :: "nat \<Rightarrow> nat" where
  "leading_digit n = (if n < 10 then n else leading_digit (n div 10))"

declare leading_digit.simps [simp del]

definition parseInt :: "int \<Rightarrow> int" where
  "parseInt n = (if \<bar>n\<bar> < 10 ^ 21 then n else sgn n * int (leading_digit (nat \<bar>n\<bar>)))"

text \<open>\<^verbatim>\<open>parseInt(x) || d\<close>: \<^verbatim>\<open>parseInt(undefined)\<close> is \<^verbatim>\<open>NaN\<close>, which is falsy, as is 0.\<close>

definition parseInt_or :: "int option \<Rightarrow> int \<Rightarrow> int" where
  "parseInt_or x d =
     (case x of None \<Rightarrow> d | Some n \<Rightarrow> if parseInt n = 0 then d else parseInt n)"

text \<open>\<^verbatim>\<open>x ? parseInt(x) : undefined\<close>.\<close>

definition parseInt_if :: "int option \<Rightarrow> int option" where
  "parseInt_if x = (case x of None \<Rightarrow> None | Some n \<Rightarrow> if n = 0 then None else Some (parseInt n))"

text \<open>\<^verbatim>\<open>s.split(c)\<close> for a one-character separator; \<^verbatim>\<open>"".split(c)\<close> is \<^verbatim>\<open>[""]\<close>.\<close>

fun split_on :: "char \<Rightarrow> string \<Rightarrow> string list" where
  "split_on c [] = [[]]"
| "split_on c (x # xs) =
     (if x = c then [] # split_on c xs
      else (case split_on c xs of [] \<Rightarrow> [[x]] | r # rs \<Rightarrow> (x # r) # rs))"

text \<open>
  \<^verbatim>\<open>s.trim()\<close>. Among the code units below 256 the white space and line terminators
  that it strips are tab, line feed, vertical tab, form feed, carriage return, space and
  the no-break space \<^verbatim>\<open>U+00A0\<close>.
\<close>

definition is_space :: "char \<Rightarrow> bool" where
  "is_space ch =
     (ch \<in> set [CHR '' '', CHR 0x09, CHR 0x0A, CHR 0x0B, CHR 0x0C, CHR 0x0D, CHR 0xA0])"

definition trim :: "string \<Rightarrow> string" where
  "trim s = rev (dropWhile is_space (rev (dropWhile is_space s)))"

text \<open>
  \<^verbatim>\<open>obj[key] = v\<close> on an object kept as an association list in insertion order:
  an existing property is overwritten in place, a new one is appended.
\<close>

fun assign :: "'k \<Rightarrow> 'v \<Rightarrow> ('k \<times> 'v) list \<Rightarrow> ('k \<times> 'v) list" where
  "assign k v [] = [(k, v)]"
| "assign k v (p # ps) = (if fst p = k then (k, v) # ps else p # assign k v ps)"

text \<open>\<^verbatim>\<open>xs.findIndex(p)\<close>: \<open>None\<close> is \<^verbatim>\<open>-1\<close>.\<close>

fun findIndex :: "('a \<Rightarrow> bool) \<Rightarrow> 'a list \<Rightarrow> nat option" where
  "findIndex p [] = None"
| "findIndex p (x # xs) =
     (if p x then Some 0 else (case findIndex p xs of None \<Rightarrow> None | Some i \<Rightarrow> Some (Suc i)))"

section \<open>Requests to the node agent\<close>

text \<open>
  The body of a reinstall or redeploy request. \<^verbatim>\<open>ExposedPorts\<close> maps a key to
  \<^verbatim>\<open>{}\<close>, \<^verbatim>\<open>PortBindings\<close> maps it to \<^verbatim>\<open>[{HostPort: h}]\<close>, kept as the list of host ports.
\<close>

record deploy_data =
  d_Name :: "string option"
  d_Id :: string
  d_Image :: "string option"
  d_Env :: env_value
  d_Scripts :: "string option"
  d_Memory :: "int option"
  d_Cpu :: "int option"
  ExposedPorts :: "(string \<times> unit) list"
  PortBindings :: "(string \<times> string list) list"
  d_AltImages :: "string list option"
  d_imageData :: "image option"

record edit_data =
  e_Image :: "string option"
  e_Memory :: "int option"
  e_Cpu :: "int option"
  e_VolumeId :: "string option"

datatype request_data = DeployData deploy_data | EditData edit_data | RenameData string

text \<open>
  Basic auth always has user name \<^verbatim>\<open>Skyport\<close>; only the password varies. Headers
  (among them a random request id) and timeouts are left out.
\<close>

record request =
  req_method :: string
  url :: string
  auth_password :: "string option"
  data :: request_data

text \<open>
  The body of the loop over \<^verbatim>\<open>ports.split(",")\<close> in \<^verbatim>\<open>prepareRequestData\<close>
  (routes/Instance/Startup.js): the two sides are the first two parts of the split at
  \<^verbatim>\<open>:\<close>; a side that is missing or empty is falsy and the segment is skipped.
\<close>

definition add_port_mapping :: "string \<Rightarrow> deploy_data \<Rightarrow> deploy_data" where
  "add_port_mapping portMapping d =
     (case split_on CHR '':'' portMapping of
        containerPort # hostPort # _ \<Rightarrow>
          if containerPort \<noteq> [] \<and> hostPort \<noteq> [] then
            let key = containerPort @ ''/tcp'' in
            d\<lparr>ExposedPorts := assign key () (ExposedPorts d),
              PortBindings := assign key [hostPort] (PortBindings d)\<rparr>
          else d
      | _ \<Rightarrow> d)"

definition add_ports :: "string option \<Rightarrow> deploy_data \<Rightarrow> deploy_data" where
  "add_ports ports d =
     (case ports of
        None \<Rightarrow> d
      | Some p \<Rightarrow>
          if p = [] then d
          else foldl (\<lambda>acc portMapping. add_port_mapping portMapping acc) d (split_on CHR '','' p))"

text \<open>The reinstall route's variant trims both sides first.\<close>

definition add_port_mapping_trim :: "string \<Rightarrow> deploy_data \<Rightarrow> deploy_data" where
  "add_port_mapping_trim portMapping d =
     (case map trim (split_on CHR '':'' portMapping) of
        containerPort # hostPort # _ \<Rightarrow>
          if containerPort \<noteq> [] \<and> hostPort \<noteq> [] then
            let key = containerPort @ ''/tcp'' in
            d\<lparr>ExposedPorts := assign key () (ExposedPorts d),
              PortBindings := assign key [hostPort] (PortBindings d)\<rparr>
          else d
      | _ \<Rightarrow> d)"

definition add_ports_trim :: "string option \<Rightarrow> deploy_data \<Rightarrow> deploy_data" where
  "add_ports_trim ports d =
     (case ports of
        None \<Rightarrow> d
      | Some p \<Rightarrow>
          if p = [] then d
          else foldl (\<lambda>acc portMapping. add_port_mapping_trim portMapping acc) d
                 (split_on CHR '','' p))"

text \<open>\<^verbatim>\<open>rawImages.find((i) => i.Image === image)\<close> on \<^verbatim>\<open>(await db.get("images")) || []\<close>.\<close>

definition find_image :: "image list option \<Rightarrow> string option \<Rightarrow> image option" where
  "find_image rawImages img =
     find (\<lambda>i. img_Image i = img) (case rawImages of None \<Rightarrow> [] | Some l \<Rightarrow> l)"

text \<open>\<^verbatim>\<open>prepareRequestData\<close> of routes/Instance/Startup.js (the redeploy request).\<close>

definition prepareRequestData ::
  "image list option \<Rightarrow> string \<Rightarrow> int option \<Rightarrow> int option \<Rightarrow> string option \<Rightarrow> string option \<Rightarrow>
   node \<Rightarrow> string \<Rightarrow> string option \<Rightarrow> env_value option \<Rightarrow> request" where
  "prepareRequestData rawImages img memory cpu ports name nd ident containerId env =
     (let imgData = find_image rawImages (Some img) in
      \<lparr>req_method = ''post'',
       url = ''http://'' @ tmpl (address nd) @ '':'' @ tmpl (port nd)
             @ ''/instances/redeploy/'' @ tmpl containerId,
       auth_password = apiKey nd,
       data = DeployData (add_ports ports
         \<lparr>d_Name = name,
          d_Id = ident,
          d_Image = Some img,
          d_Env = (case env of Some (EnvArray e) \<Rightarrow> EnvArray e | _ \<Rightarrow> EnvArray []),
          d_Scripts = (case imgData of None \<Rightarrow> None | Some i \<Rightarrow> Scripts i),
          d_Memory = parseInt_if memory,
          d_Cpu = parseInt_if cpu,
          ExposedPorts = [],
          PortBindings = [],
          d_AltImages = (case imgData of None \<Rightarrow> Some [] | Some i \<Rightarrow> img_AltImages i),
          d_imageData = None\<rparr>)\<rparr>)"

text \<open>\<^verbatim>\<open>prepareRequestData\<close> of the reinstall route (the reinstall request).\<close>

definition prepareRequestData_reinstall ::
  "image list option \<Rightarrow> string \<Rightarrow> int option \<Rightarrow> int option \<Rightarrow> string option \<Rightarrow> string option \<Rightarrow>
   node \<Rightarrow> string \<Rightarrow> string option \<Rightarrow> env_value option \<Rightarrow> request" where
  "prepareRequestData_reinstall rawImages img memory cpu ports name nd ident containerId env =
     (let imgData = find_image rawImages (Some img) in
      \<lparr>req_method = ''post'',
       url = ''http://'' @ tmpl (address nd) @ '':'' @ tmpl (port nd)
             @ ''/instances/reinstall/'' @ tmpl containerId,
       auth_password = apiKey nd,
       data = DeployData (add_ports_trim ports
         \<lparr>d_Name = name,
          d_Id = ident,
          d_Image = Some img,
          d_Env = (case env of None \<Rightarrow> EnvObject | Some e \<Rightarrow> e),
          d_Scripts = (case imgData of None \<Rightarrow> None | Some i \<Rightarrow> Scripts i),
          d_Memory = Some (parseInt_or memory 512),
          d_Cpu = Some (parseInt_or cpu 100),
          ExposedPorts = [],
          PortBindings = [],
          d_AltImages = Some (case imgData of None \<Rightarrow> []
                              | Some i \<Rightarrow> (case img_AltImages i of None \<Rightarrow> [] | Some a \<Rightarrow> a)),
          d_imageData = Some (case imgData of None \<Rightarrow> no_image | Some i \<Rightarrow> i)\<rparr>)\<rparr>)"

section \<open>The world a handler runs in\<close>

text \<open>
  The store has five families of keys: \<^verbatim>\<open>`${id}_instance`\<close>, \<^verbatim>\<open>`${userId}_instances`\<close>,
  \<^verbatim>\<open>instances\<close>, \<^verbatim>\<open>`${nodeId}_node`\<close> and \<^verbatim>\<open>images\<close>. Keys of different families never
  coincide (lemma \<open>store_keys_disjoint\<close> below), so each family is a map of its own,
  indexed by the interpolated part of the key. The world also records, in order, the
  requests sent to node agents, the audit entries and the messages written with
  \<^verbatim>\<open>console.error\<close>. Store operations themselves are taken not to fail.
\<close>

record world =
  db_instance :: "string \<rightharpoonup> inst"
  db_user_instances :: "string \<rightharpoonup> inst list"
  db_instances :: "inst list option"
  db_node :: "string \<rightharpoonup> node"
  db_images :: "image list option"
  agent_calls :: "request list"
  audit_log :: "string list"
  console_errors :: "string list"

definition instance_key :: "string \<Rightarrow> string" where
  "instance_key ident = ident @ ''_instance''"

definition user_instances_key :: "string \<Rightarrow> string" where
  "user_instances_key userId = userId @ ''_instances''"

definition node_key :: "string \<Rightarrow> string" where
  "node_key nodeId = nodeId @ ''_node''"

text \<open>\<^verbatim>\<open>req.user\<close>, when the session is authenticated.\<close>

record user =
  userId :: string
  username :: string
  admin :: bool

text \<open>
  What \<^verbatim>\<open>axios\<close> gives back: it throws (with the status of \<^verbatim>\<open>error.response\<close>, when
  there is one), or it returns a response whose \<^verbatim>\<open>data\<close> may be absent.
\<close>

record reply_body =
  containerId :: "string option"
  newContainerId :: "string option"

datatype agent_reply = AgentThrows "nat option" | AgentResponds "reply_body option"

text \<open>
  The collaborators that are not part of these routes: the authorisation helper
  \<^verbatim>\<open>isUserAuthorizedForContainer(userId, instance.Id)\<close>, the node agents behind
  \<^verbatim>\<open>axios\<close>, and the clock read by \<^verbatim>\<open>new Date().toISOString()\<close>.
\<close>

record collab =
  isUserAuthorizedForContainer :: "string \<Rightarrow> string option \<Rightarrow> bool"
  axios :: "request \<Rightarrow> agent_reply"
  now :: string

text \<open>Exceptions caught at the route boundary.\<close>

datatype exn = TypeError | AxiosError "nat option" | Error string

text \<open>
  What a handler answers. \<open>StatusRedirect\<close> is \<^verbatim>\<open>res.status(n).redirect(url)\<close>,
  \<open>JsonError\<close> is \<^verbatim>\<open>res.status(n).json({error})\<close>, \<open>JsonMessage\<close> is
  \<^verbatim>\<open>res.status(n).json({message})\<close>, \<open>JsonCaught\<close> is the answer of a \<^verbatim>\<open>catch\<close> block
  (its label and the exception its details are built from), \<open>JsonEdited\<close> is the
  edit route's success body.
\<close>

datatype response =
    Redirect string
  | StatusRedirect nat string
  | Send nat string
  | JsonError nat string
  | JsonMessage nat string
  | JsonSuccess
  | JsonCaught nat string exn
  | JsonEdited string string bool bool bool
  | Render inst

definition db_set_instance :: "string \<Rightarrow> inst \<Rightarrow> world \<Rightarrow> world" where
  "db_set_instance ident i s = s\<lparr>db_instance := (db_instance s)(ident \<mapsto> i)\<rparr>"

definition logAudit :: "string \<Rightarrow> world \<Rightarrow> world" where
  "logAudit action s = s\<lparr>audit_log := audit_log s @ [action]\<rparr>"

definition console_error :: "string \<Rightarrow> world \<Rightarrow> world" where
  "console_error msg s = s\<lparr>console_errors := console_errors s @ [msg]\<rparr>"

definition send_request :: "request \<Rightarrow> world \<Rightarrow> world" where
  "send_request r s = s\<lparr>agent_calls := agent_calls s @ [r]\<rparr>"

text \<open>
  The block repeated in three handlers of routes/Instance/Startup.js:
  \<^verbatim>\<open>if (typeof instance.suspended === "undefined") { instance.suspended = false;
  await db.set(`${id}_instance`, instance); }\<close>
\<close>

definition migrate_suspended :: "string \<Rightarrow> inst \<Rightarrow> world \<Rightarrow> inst \<times> world" where
  "migrate_suspended ident i s =
     (if suspended i = None
      then (i\<lparr>suspended := Some False\<rparr>, db_set_instance ident (i\<lparr>suspended := Some False\<rparr>) s)
      else (i, s))"

section \<open>routes/Instance/Startup.js\<close>

text \<open>\<^verbatim>\<open>updateInstanceInUserAndGlobalArrays\<close>: drop the entries with the record's Id, push it.\<close>

definition updateInstanceInUserAndGlobalArrays :: "inst \<Rightarrow> world \<Rightarrow> world" where
  "updateInstanceInUserAndGlobalArrays instanceData s =
     (let userInstances = (case db_user_instances s (tmpl (User instanceData)) of
                             None \<Rightarrow> [] | Some l \<Rightarrow> l);
          userInstances' = filter (\<lambda>i. InstId i \<noteq> InstId instanceData) userInstances
                           @ [instanceData];
          s1 = s\<lparr>db_user_instances :=
                   (db_user_instances s)(tmpl (User instanceData) \<mapsto> userInstances')\<rparr>;
          globalInstances = (case db_instances s1 of None \<Rightarrow> [] | Some l \<Rightarrow> l);
          globalInstances' = filter (\<lambda>i. InstId i \<noteq> InstId instanceData) globalInstances
                             @ [instanceData]
      in s1\<lparr>db_instances := Some globalInstances'\<rparr>)"

text \<open>\<^verbatim>\<open>GET /instance/:id/startup\<close>.\<close>

definition get_startup :: "collab \<Rightarrow> user option \<Rightarrow> string \<Rightarrow> world \<Rightarrow> response \<times> world" where
  "get_startup c req_user ident s =
     (case req_user of
        None \<Rightarrow> (Redirect ''/'', s)
      | Some u \<Rightarrow>
          if ident = [] then (Redirect ''/instances'', s)
          else (case db_instance s ident of
            None \<Rightarrow> (Redirect ''../../instances'', s)
          | Some i0 \<Rightarrow>
              if \<not> isUserAuthorizedForContainer c (userId u) (InstId i0)
              then (Send 403 ''Unauthorized access to this instance.'', s)
              else
                let (i, s1) = migrate_suspended ident i0 s in
                if suspended i = Some True then (Redirect ''../../instances?err=SUSPENDED'', s1)
                else (Render i, s1)))"

text \<open>
  The environment update of \<^verbatim>\<open>POST /instances/startup/changevariable/:id\<close>: the key of
  an entry is what precedes its first \<^verbatim>\<open>=\<close>.
\<close>

definition env_key :: "string \<Rightarrow> string" where
  "env_key envVar = (case split_on CHR ''='' envVar of [] \<Rightarrow> [] | k # _ \<Rightarrow> k)"

definition update_env :: "string \<Rightarrow> string option \<Rightarrow> string list \<Rightarrow> string list" where
  "update_env variable val env =
     (let updatedEnv = map (\<lambda>envVar. if env_key envVar = variable
                                      then env_key envVar @ ''='' @ or_empty val
                                      else envVar) env;
          envUpdated = list_ex (\<lambda>envVar. env_key envVar = variable) env
      in if \<not> envUpdated then updatedEnv @ [variable @ ''='' @ or_empty val] else updatedEnv)"

definition changevariable ::
  "collab \<Rightarrow> user option \<Rightarrow> string \<Rightarrow> string option \<Rightarrow> string option \<Rightarrow> world \<Rightarrow> response \<times> world"
  where
  "changevariable c req_user ident variable val s =
     (case req_user of
        None \<Rightarrow> (Redirect ''/'', s)
      | Some u \<Rightarrow>
          if ident = [] \<or> \<not> truthy variable then (JsonError 400 ''Missing parameters'', s)
          else (case db_instance s ident of
            None \<Rightarrow> (JsonError 404 ''Instance not found'', s)
          | Some i0 \<Rightarrow>
              if \<not> isUserAuthorizedForContainer c (userId u) (InstId i0)
              then (Send 403 ''Unauthorized access to this instance.'', s)
              else
                let (i, s1) = migrate_suspended ident i0 s in
                if suspended i = Some True then (JsonError 403 ''Instance is suspended'', s1)
                else (case Env i of
                  Some (EnvArray env) \<Rightarrow>
                    let updatedInstance = i\<lparr>Env := Some (EnvArray (update_env (tmpl variable) val env))\<rparr>;
                        s2 = db_set_instance ident updatedInstance s1;
                        s3 = updateInstanceInUserAndGlobalArrays updatedInstance s2
                    in (JsonSuccess, logAudit ''instance:variableChange'' s3)
                | _ \<Rightarrow>
                    (JsonCaught 500 ''Failed to update environment variable'' TypeError,
                     console_error ''Error updating environment variable:'' s1))))"

text \<open>
  \<^verbatim>\<open>POST /instance/:id/change/name/:name\<close>. The new name is read from the body; a body
  value that is not a string fails the same test as a name of the wrong length, so only
  strings (or nothing) are modelled.
\<close>

definition rename_request :: "inst \<Rightarrow> node \<Rightarrow> string \<Rightarrow> request" where
  "rename_request i nd newName =
     \<lparr>req_method = ''post'',
      url = ''http://'' @ tmpl (address nd) @ '':'' @ tmpl (port nd)
            @ ''/instances/rename/'' @ tmpl (ContainerId i),
      auth_password = apiKey nd,
      data = RenameData newName\<rparr>"

text \<open>
  The last step of the rename route:
  \<^verbatim>\<open>if (instance.Node && instance.ContainerId) { try { await axios(...) }
  catch (nodeError) { console.error(...) } }\<close>
\<close>

definition notify_rename :: "collab \<Rightarrow> inst \<Rightarrow> string \<Rightarrow> world \<Rightarrow> world" where
  "notify_rename c i newName s =
     (case Node i of
        None \<Rightarrow> s
      | Some nd \<Rightarrow>
          if truthy (ContainerId i) then
            (case axios c (rename_request i nd newName) of
               AgentThrows _ \<Rightarrow>
                 console_error ''Failed to update container name on node:''
                   (send_request (rename_request i nd newName) s)
             | AgentResponds _ \<Rightarrow> send_request (rename_request i nd newName) s)
          else s)"

definition rename ::
  "collab \<Rightarrow> user option \<Rightarrow> string \<Rightarrow> string option \<Rightarrow> world \<Rightarrow> response \<times> world" where
  "rename c req_user ident newName s =
     (case req_user of
        None \<Rightarrow> (Redirect ''/'', s)
      | Some u \<Rightarrow>
          if ident = [] \<or> \<not> truthy newName then (JsonError 400 ''Missing parameters'', s)
          else
            let n = tmpl newName in
            if length n < 3 \<or> length n > 32
            then (JsonError 400 ''Name must be between 3 and 32 characters'', s)
            else (case db_instance s ident of
              None \<Rightarrow> (JsonError 404 ''Instance not found'', s)
            | Some i \<Rightarrow>
                if \<not> isUserAuthorizedForContainer c (userId u) (InstId i)
                then (Send 403 ''Unauthorized access to this instance.'', s)
                else if suspended i = Some True
                then (JsonError 403 ''Instance is suspended'', s)
                else
                  let allInstances = (case db_instances s of None \<Rightarrow> [] | Some l \<Rightarrow> l);
                      nameExists = list_ex (\<lambda>x. Name x = Some n \<and> InstId x \<noteq> Some ident)
                                     allInstances
                  in if nameExists then (JsonError 400 ''Instance name already in use'', s)
                  else
                    let updatedInstance = i\<lparr>Name := Some n\<rparr>;
                        s1 = db_set_instance ident updatedInstance s;
                        s2 = updateInstanceInUserAndGlobalArrays updatedInstance s1;
                        s3 = notify_rename c i n s2
                    in (JsonSuccess, logAudit ''instance:rename'' s3)))"

text \<open>
  \<^verbatim>\<open>updateDatabaseWithNewInstance\<close> of routes/Instance/Startup.js. The caller has
  already read \<^verbatim>\<open>responseData.containerId\<close> safely when this is reached (see
  \<open>changeimage\<close>), so the response body is passed as a record. The object literal
  \<^verbatim>\<open>instanceData\<close> is \<open>instanceData_redeploy\<close>.
\<close>

definition instanceData_redeploy ::
  "image list option \<Rightarrow> reply_body \<Rightarrow> string \<Rightarrow> node \<Rightarrow> string option \<Rightarrow> int option \<Rightarrow>
   int option \<Rightarrow> string option \<Rightarrow> string option \<Rightarrow> string option \<Rightarrow> string \<Rightarrow> string \<Rightarrow>
   image option \<Rightarrow> env_value option \<Rightarrow> inst" where
  "instanceData_redeploy rawImages responseData usr nd img memory cpu ports primary name ident
       currentimg imagedata env =
     (let imgData = find_image rawImages img;
          altImages = (case imgData of None \<Rightarrow> Some [] | Some i \<Rightarrow> img_AltImages i)
      in \<lparr>Name = name,
          InstId = Some ident,
          Node = Some nd,
          User = Some usr,
          ContainerId = containerId responseData,
          VolumeId = Some ident,
          Memory = Some (parseInt_or memory 0),
          Cpu = Some (parseInt_or cpu 0),
          Ports = ports,
          Primary = primary,
          InstImage = img,
          AltImages = altImages,
          imageData = imagedata,
          Env = Some (case env of Some (EnvArray e) \<Rightarrow> EnvArray e | _ \<Rightarrow> EnvArray []),
          suspended = Some False,
          currentimage = Some currentimg,
          createdAt = None,
          updatedAt = None\<rparr>)"

definition updateDatabaseWithNewInstance ::
  "reply_body \<Rightarrow> string \<Rightarrow> node \<Rightarrow> string option \<Rightarrow> int option \<Rightarrow> int option \<Rightarrow> string option \<Rightarrow>
   string option \<Rightarrow> string option \<Rightarrow> string \<Rightarrow> string \<Rightarrow> image option \<Rightarrow> env_value option \<Rightarrow>
   world \<Rightarrow> world" where
  "updateDatabaseWithNewInstance responseData usr nd img memory cpu ports primary name ident
       currentimg imagedata env s =
     (let instanceData = instanceData_redeploy (db_images s) responseData usr nd img memory cpu
                           ports primary name ident currentimg imagedata env
      in db_set_instance ident instanceData
           (updateInstanceInUserAndGlobalArrays instanceData s))"

text \<open>
  \<^verbatim>\<open>GET /instances/startup/changeimage/:id\<close>. Reading \<^verbatim>\<open>instance.Node.id\<close>,
  \<^verbatim>\<open>instance.imageData.Image\<close> or \<^verbatim>\<open>responseData.containerId\<close> on an absent object
  throws a \<^verbatim>\<open>TypeError\<close>, which the route's \<^verbatim>\<open>catch\<close> answers with status 500.
\<close>

definition changeimage_caught :: "exn \<Rightarrow> world \<Rightarrow> response \<times> world" where
  "changeimage_caught e s =
     (JsonCaught 500 ''Failed to change container image'' e,
      console_error ''Error changing instance image:'' s)"

definition changeimage ::
  "collab \<Rightarrow> user option \<Rightarrow> string \<Rightarrow> string option \<Rightarrow> string option \<Rightarrow> world \<Rightarrow> response \<times> world"
  where
  "changeimage c req_user ident img usr s =
     (case req_user of
        None \<Rightarrow> (Redirect ''/'', s)
      | Some u \<Rightarrow>
          if ident = [] then (Redirect ''/instances'', s)
          else (case db_instance s ident of
            None \<Rightarrow> (Redirect ''/instances'', s)
          | Some i0 \<Rightarrow>
              if \<not> isUserAuthorizedForContainer c (userId u) (InstId i0)
              then (Send 403 ''Unauthorized access to this instance.'', s)
              else
                let (i, s1) = migrate_suspended ident i0 s in
                if suspended i = Some True
                then (Redirect (''../../instance/'' @ ident @ ''/suspended''), s1)
                else (case Node i of
                  None \<Rightarrow> changeimage_caught TypeError s1
                | Some inode \<Rightarrow>
                    if \<not> truthy img \<or> \<not> truthy usr \<or> \<not> truthy (node_id inode)
                    then (JsonError 400 ''Missing parameters'', s1)
                    else (case db_node s1 (tmpl (node_id inode)) of
                      None \<Rightarrow> (JsonError 400 ''Invalid node'', s1)
                    | Some nd \<Rightarrow>
                        let requestData = prepareRequestData (db_images s1) (tmpl img) (Memory i)
                              (Cpu i) (Ports i) (Name i) nd ident (ContainerId i) (Env i);
                            s2 = send_request requestData s1
                        in (case axios c requestData of
                          AgentThrows st \<Rightarrow> changeimage_caught (AxiosError st) s2
                        | AgentResponds body \<Rightarrow>
                            (case imageData i of
                               None \<Rightarrow> changeimage_caught TypeError s2
                             | Some idata \<Rightarrow>
                                 (case body of
                                    None \<Rightarrow> changeimage_caught TypeError s2
                                  | Some responseData \<Rightarrow>
                                      let s3 = updateDatabaseWithNewInstance responseData (tmpl usr)
                                                 nd (img_Image idata) (Memory i) (Cpu i) (Ports i)
                                                 (Primary i) (Name i) ident (tmpl img)
                                                 (imageData i) (Env i) s2
                                      in (StatusRedirect 201 (''/instance/'' @ ident @ ''/startup''),
                                          logAudit ''instance:imageChange'' s3))))))))"

section \<open>The reinstall route\<close>

text \<open>
  \<^verbatim>\<open>updateDatabaseWithNewInstance\<close> of the reinstall route; its object literal
  \<^verbatim>\<open>instanceData\<close> is \<open>instanceData_reinstall\<close>.
\<close>

definition instanceData_reinstall ::
  "collab \<Rightarrow> image list option \<Rightarrow> reply_body \<Rightarrow> string \<Rightarrow> node \<Rightarrow> string \<Rightarrow> int option \<Rightarrow>
   int option \<Rightarrow> string option \<Rightarrow> string option \<Rightarrow> string option \<Rightarrow> string \<Rightarrow>
   env_value option \<Rightarrow> inst" where
  "instanceData_reinstall c rawImages responseData usr nd img memory cpu ports primary name ident
       env =
     (let imgData = find_image rawImages (Some img)
      in \<lparr>Name = name,
          InstId = Some ident,
          Node = Some nd,
          User = Some usr,
          ContainerId = containerId responseData,
          VolumeId = Some ident,
          Memory = Some (parseInt_or memory 512),
          Cpu = Some (parseInt_or cpu 100),
          Ports = ports,
          Primary = primary,
          InstImage = Some img,
          AltImages = Some (case imgData of None \<Rightarrow> []
                            | Some i \<Rightarrow> (case img_AltImages i of None \<Rightarrow> [] | Some a \<Rightarrow> a)),
          imageData = Some (case imgData of None \<Rightarrow> no_image | Some i \<Rightarrow> i),
          Env = Some (case env of None \<Rightarrow> EnvObject | Some e \<Rightarrow> e),
          suspended = None,
          currentimage = None,
          createdAt = Some (now c),
          updatedAt = Some (now c)\<rparr>)"

definition updateDatabaseWithNewInstance_reinstall ::
  "collab \<Rightarrow> reply_body \<Rightarrow> string \<Rightarrow> node \<Rightarrow> string \<Rightarrow> int option \<Rightarrow> int option \<Rightarrow> string option \<Rightarrow>
   string option \<Rightarrow> string option \<Rightarrow> string \<Rightarrow> env_value option \<Rightarrow> world \<Rightarrow> world" where
  "updateDatabaseWithNewInstance_reinstall c responseData usr nd img memory cpu ports primary
       name ident env s =
     (let instanceData = instanceData_reinstall c (db_images s) responseData usr nd img memory cpu
                           ports primary name ident env;
          userInstances = (case db_user_instances s usr of None \<Rightarrow> [] | Some l \<Rightarrow> l);
          userInstances' = filter (\<lambda>i. InstId i \<noteq> Some ident) userInstances @ [instanceData];
          s1 = s\<lparr>db_user_instances := (db_user_instances s)(usr \<mapsto> userInstances')\<rparr>;
          globalInstances = (case db_instances s1 of None \<Rightarrow> [] | Some l \<Rightarrow> l);
          globalInstances' = filter (\<lambda>i. InstId i \<noteq> Some ident) globalInstances @ [instanceData];
          s2 = s1\<lparr>db_instances := Some globalInstances'\<rparr>;
          s3 = db_set_instance ident instanceData s2
      in logAudit ''database'' s3)"

text \<open>\<^verbatim>\<open>POST /instance/reinstall/:id\<close>.\<close>

definition reinstall_caught :: "exn \<Rightarrow> world \<Rightarrow> response \<times> world" where
  "reinstall_caught e s =
     (JsonCaught 500 ''Failed to reinstall container'' e,
      console_error ''Error reinstalling instance:'' s)"

definition reinstall :: "collab \<Rightarrow> user option \<Rightarrow> string \<Rightarrow> world \<Rightarrow> response \<times> world" where
  "reinstall c req_user ident s =
     (case req_user of
        None \<Rightarrow> (Redirect ''/'', s)
      | Some u \<Rightarrow>
          if ident = [] then (Redirect ''/instances'', s)
          else (case db_instance s ident of
            None \<Rightarrow> (Redirect ''/instances'', s)
          | Some i \<Rightarrow>
              if \<not> isUserAuthorizedForContainer c (userId u) (InstId i)
              then (Send 403 ''Unauthorized access to this instance.'', s)
              else if suspended i = Some True
              then (Redirect ''../../instances?err=SUSPENDED'', s)
              else if \<not> truthy (InstImage i) \<or> \<not> truthy_num (Memory i) \<or> \<not> truthy_num (Cpu i)
                      \<or> \<not> truthy (Name i) \<or> \<not> truthy (User i) \<or> \<not> truthy (Primary i)
                      \<or> Node i = None
              then (JsonError 400 ''Missing required parameters'', s)
              else (case Node i of
                None \<Rightarrow> (JsonError 400 ''Missing required parameters'', s)
              | Some nd \<Rightarrow>
                  let requestData = prepareRequestData_reinstall (db_images s) (tmpl (InstImage i))
                        (Memory i) (Cpu i) (Ports i) (Name i) nd ident (ContainerId i) (Env i);
                      s1 = send_request requestData s
                  in (case axios c requestData of
                    AgentThrows st \<Rightarrow> reinstall_caught (AxiosError st) s1
                  | AgentResponds body \<Rightarrow>
                      (case body of
                         None \<Rightarrow> reinstall_caught (Error ''Invalid response from node'') s1
                       | Some responseData \<Rightarrow>
                           if \<not> truthy (containerId responseData)
                           then reinstall_caught (Error ''Invalid response from node'') s1
                           else
                             let s2 = updateDatabaseWithNewInstance_reinstall c responseData
                                        (tmpl (User i)) nd (tmpl (InstImage i)) (Memory i) (Cpu i)
                                        (Ports i) (Primary i) (Name i) ident (Env i) s1
                             in (StatusRedirect 201 (''../../instance/'' @ ident),
                                 logAudit ''instance'' s2))))))"

section \<open>The edit route\<close>

text \<open>\<^verbatim>\<open>prepareEditRequestData\<close>; the caller has checked that the node is there.\<close>

definition prepareEditRequestData ::
  "inst \<Rightarrow> node \<Rightarrow> string option \<Rightarrow> int option \<Rightarrow> int option \<Rightarrow> request" where
  "prepareEditRequestData i nd img memory cpu =
     \<lparr>req_method = ''put'',
      url = ''http://'' @ tmpl (address nd) @ '':'' @ tmpl (port nd)
            @ ''/instances/edit/'' @ tmpl (ContainerId i),
      auth_password = apiKey nd,
      data = EditData \<lparr>e_Image = or_else img (InstImage i),
                       e_Memory = or_else_num memory (Memory i),
                       e_Cpu = or_else_num cpu (Cpu i),
                       e_VolumeId = VolumeId i\<rparr>\<rparr>"

text \<open>
  The object spread \<^verbatim>\<open>{ ...old, ...updatedInstance }\<close>. \<^verbatim>\<open>updatedInstance\<close> always has
  the properties it sets itself (Image, Memory, Cpu, ContainerId, updatedAt), whatever
  their value; any other property it has only when the stored record had it, and
  otherwise the list entry's own value stays.
\<close>

definition keep :: "'a option \<Rightarrow> 'a option \<Rightarrow> 'a option" where
  "keep old new = (case new of None \<Rightarrow> old | Some v \<Rightarrow> Some v)"

definition spread :: "inst \<Rightarrow> inst \<Rightarrow> inst" where
  "spread old updatedInstance =
     \<lparr>Name = keep (Name old) (Name updatedInstance),
      InstId = keep (InstId old) (InstId updatedInstance),
      Node = keep (Node old) (Node updatedInstance),
      User = keep (User old) (User updatedInstance),
      ContainerId = ContainerId updatedInstance,
      VolumeId = keep (VolumeId old) (VolumeId updatedInstance),
      Memory = Memory updatedInstance,
      Cpu = Cpu updatedInstance,
      Ports = keep (Ports old) (Ports updatedInstance),
      Primary = keep (Primary old) (Primary updatedInstance),
      InstImage = InstImage updatedInstance,
      AltImages = keep (AltImages old) (AltImages updatedInstance),
      imageData = keep (imageData old) (imageData updatedInstance),
      Env = keep (Env old) (Env updatedInstance),
      suspended = keep (suspended old) (suspended updatedInstance),
      currentimage = keep (currentimage old) (currentimage updatedInstance),
      createdAt = keep (createdAt old) (createdAt updatedInstance),
      updatedAt = updatedAt updatedInstance\<rparr>"

text \<open>\<^verbatim>\<open>updateUserInstances\<close>.\<close>

definition updateUserInstances :: "string option \<Rightarrow> string \<Rightarrow> inst \<Rightarrow> world \<Rightarrow> world" where
  "updateUserInstances usr oldContainerId updatedInstance s =
     (let userInstances = (case db_user_instances s (tmpl usr) of None \<Rightarrow> [] | Some l \<Rightarrow> l) in
      case findIndex (\<lambda>x. ContainerId x = Some oldContainerId) userInstances of
        None \<Rightarrow> s
      | Some instanceIndex \<Rightarrow>
          s\<lparr>db_user_instances := (db_user_instances s)(tmpl usr \<mapsto>
               userInstances[instanceIndex :=
                 spread (userInstances ! instanceIndex) updatedInstance])\<rparr>)"

text \<open>\<^verbatim>\<open>updateGlobalInstances\<close>.\<close>

definition updateGlobalInstances :: "string \<Rightarrow> inst \<Rightarrow> world \<Rightarrow> world" where
  "updateGlobalInstances oldContainerId updatedInstance s =
     (let globalInstances = (case db_instances s of None \<Rightarrow> [] | Some l \<Rightarrow> l) in
      case findIndex (\<lambda>x. ContainerId x = Some oldContainerId) globalInstances of
        None \<Rightarrow> s
      | Some instanceIndex \<Rightarrow>
          s\<lparr>db_instances := Some (globalInstances[instanceIndex :=
               spread (globalInstances ! instanceIndex) updatedInstance])\<rparr>)"

text \<open>
  \<^verbatim>\<open>updateInstanceInDatabase\<close>: the batch first sets the new key, then deletes the old
  one. It returns the updated instance and the new world.
\<close>

definition updateInstanceInDatabase ::
  "collab \<Rightarrow> string \<Rightarrow> inst \<Rightarrow> string option \<Rightarrow> int option \<Rightarrow> int option \<Rightarrow> string \<Rightarrow> world \<Rightarrow>
   inst \<times> world" where
  "updateInstanceInDatabase c ident i img memory cpu newId s =
     (let updatedInstance = i\<lparr>InstImage := or_else img (InstImage i),
                              Memory := or_else_num memory (Memory i),
                              Cpu := or_else_num cpu (Cpu i),
                              ContainerId := Some newId,
                              updatedAt := Some (now c)\<rparr>;
          s1 = s\<lparr>db_instance := ((db_instance s)(newId \<mapsto> updatedInstance))(ident := None)\<rparr>;
          s2 = updateUserInstances (User i) ident updatedInstance s1;
          s3 = updateGlobalInstances ident updatedInstance s2
      in (updatedInstance, s3))"

text \<open>
  \<^verbatim>\<open>PUT /instances/edit/:id\<close> behind the \<^verbatim>\<open>isAdmin\<close> middleware. The body's Image is a
  string and its Memory and Cpu are integers, when present. A thrown request is
  answered with \<^verbatim>\<open>error.response?.status || 500\<close>: the status of the error's response,
  or 500 when there is none or it is 0.
\<close>

definition edit_caught :: "exn \<Rightarrow> world \<Rightarrow> response \<times> world" where
  "edit_caught e s =
     (JsonCaught (case e of AxiosError (Some st) \<Rightarrow> if st = 0 then 500 else st | _ \<Rightarrow> 500)
        ''Failed to update instance'' e,
      console_error ''Error updating instance:'' s)"

definition valid_node :: "node option \<Rightarrow> bool" where
  "valid_node n = (case n of None \<Rightarrow> False
                   | Some nd \<Rightarrow> truthy (address nd) \<and> truthy (port nd) \<and> truthy (apiKey nd))"

definition edit ::
  "collab \<Rightarrow> user option \<Rightarrow> string \<Rightarrow> string option \<Rightarrow> int option \<Rightarrow> int option \<Rightarrow> world \<Rightarrow>
   response \<times> world" where
  "edit c req_user ident img memory cpu s =
     (case req_user of
        None \<Rightarrow> (JsonMessage 403 ''Forbidden: Admin access required'', s)
      | Some u \<Rightarrow>
          if \<not> admin u then (JsonMessage 403 ''Forbidden: Admin access required'', s)
          else if ident = [] then (JsonMessage 400 ''Invalid instance ID'', s)
          else if \<not> truthy img \<and> \<not> truthy_num memory \<and> \<not> truthy_num cpu
          then (JsonMessage 400
                  ''At least one update parameter (Image, Memory, Cpu) is required'', s)
          else if truthy_num memory \<and> (case memory of None \<Rightarrow> False | Some m \<Rightarrow> m \<le> 0)
          then (JsonMessage 400 ''Memory must be a positive number'', s)
          else if truthy_num cpu \<and> (case cpu of None \<Rightarrow> False | Some k \<Rightarrow> k \<le> 0)
          then (JsonMessage 400 ''CPU must be a positive number'', s)
          else (case db_instance s ident of
            None \<Rightarrow> (JsonMessage 404 ''Instance not found'', s)
          | Some i \<Rightarrow>
              if \<not> valid_node (Node i)
              then (JsonMessage 500 ''Invalid node configuration for this instance'', s)
              else (case Node i of
                None \<Rightarrow> (JsonMessage 500 ''Invalid node configuration for this instance'', s)
              | Some nd \<Rightarrow>
                  let requestData = prepareEditRequestData i nd img memory cpu;
                      s1 = send_request requestData s
                  in (case axios c requestData of
                    AgentThrows st \<Rightarrow> edit_caught (AxiosError st) s1
                  | AgentResponds body \<Rightarrow>
                      (case body of
                         None \<Rightarrow> edit_caught (Error ''Invalid response from node API'') s1
                       | Some responseData \<Rightarrow>
                           (case newContainerId responseData of
                              None \<Rightarrow> edit_caught (Error ''Invalid response from node API'') s1
                            | Some newId \<Rightarrow>
                                if newId = []
                                then edit_caught (Error ''Invalid response from node API'') s1
                                else
                                  let (updatedInstance, s2) =
                                        updateInstanceInDatabase c ident i img memory cpu newId s1
                                  in (JsonEdited ident newId (truthy img) (truthy_num memory)
                                        (truthy_num cpu),
                                      logAudit ''instance:edit'' s2)))))))"

section \<open>Notions used to state the properties\<close>

text \<open>
  The three views of an instance agree on a record \<open>r\<close> stored under \<open>key\<close>: the
  per-instance record is \<open>r\<close>, and in the list of the record's user and in the global
  list \<open>r\<close> is present and is the only entry with its Id.
\<close>

definition only_entry :: "inst \<Rightarrow> inst list option \<Rightarrow> bool" where
  "only_entry r l = (case l of None \<Rightarrow> False
                     | Some xs \<Rightarrow> r \<in> set xs \<and> filter (\<lambda>x. InstId x = InstId r) xs = [r])"

definition views_agree :: "world \<Rightarrow> string \<Rightarrow> inst \<Rightarrow> bool" where
  "views_agree s key r =
     (db_instance s key = Some r
      \<and> only_entry r (db_user_instances s (tmpl (User r)))
      \<and> only_entry r (db_instances s))"


text \<open>A list has an entry whose ContainerId is \<open>cid\<close>.\<close>

definition has_container :: "string \<Rightarrow> inst list option \<Rightarrow> bool" where
  "has_container cid l =
     (case l of None \<Rightarrow> False | Some xs \<Rightarrow> list_ex (\<lambda>x. ContainerId x = Some cid) xs)"


text \<open>
  The record that an edit writes is \<open>edited\<close>. A request is carried out by the edit route
  (\<open>edit_accepts\<close>) when it passes every check of the handler, on the stored record \<open>i\<close>
  with node \<open>nd\<close>, and the agent answers with the non-empty new container id \<open>newId\<close>.
\<close>

definition edited :: "collab \<Rightarrow> inst \<Rightarrow> string option \<Rightarrow> int option \<Rightarrow> int option \<Rightarrow> string \<Rightarrow> inst" where
  "edited c i img memory cpu newId =
     i\<lparr>InstImage := or_else img (InstImage i), Memory := or_else_num memory (Memory i),
       Cpu := or_else_num cpu (Cpu i), ContainerId := Some newId, updatedAt := Some (now c)\<rparr>"

definition edit_accepts ::
  "collab \<Rightarrow> user option \<Rightarrow> string \<Rightarrow> string option \<Rightarrow> int option \<Rightarrow> int option \<Rightarrow> world \<Rightarrow>
   inst \<Rightarrow> node \<Rightarrow> string \<Rightarrow> bool" where
  "edit_accepts c ru ident img memory cpu s i nd newId =
     ((case ru of None \<Rightarrow> False | Some u \<Rightarrow> admin u) \<and> ident \<noteq> []
      \<and> (truthy img \<or> truthy_num memory \<or> truthy_num cpu)
      \<and> (case memory of None \<Rightarrow> True | Some m \<Rightarrow> 0 \<le> m)
      \<and> (case cpu of None \<Rightarrow> True | Some k \<Rightarrow> 0 \<le> k)
      \<and> db_instance s ident = Some i \<and> valid_node (Node i) \<and> Node i = Some nd
      \<and> (case axios c (prepareEditRequestData i nd img memory cpu) of
            AgentThrows _ \<Rightarrow> False
          | AgentResponds body \<Rightarrow>
              (case body of None \<Rightarrow> False | Some b \<Rightarrow> newContainerId b = Some newId))
      \<and> newId \<noteq> [])"

text \<open>
  A handler run from \<open>s\<close> to \<open>s'\<close> kept the keys of the per-instance records: the same
  keys are present, and no record other than the one under \<open>ident\<close> has changed.
\<close>

definition writes_own_key :: "string \<Rightarrow> world \<Rightarrow> world \<Rightarrow> bool" where
  "writes_own_key ident s s' =
     (dom (db_instance s') = dom (db_instance s)
      \<and> (\<forall>k. k \<noteq> ident \<longrightarrow> db_instance s' k = db_instance s k))"

text \<open>
  A port-mapping segment with a missing side: no \<^verbatim>\<open>:\<close>, or nothing before it, or
  nothing between it and the next \<^verbatim>\<open>:\<close>. The second notion is the same after trimming.
\<close>

definition missing_side :: "string \<Rightarrow> bool" where
  "missing_side seg = (case split_on CHR '':'' seg of
                         c # h # _ \<Rightarrow> c = [] \<or> h = []
                       | _ \<Rightarrow> True)"

definition missing_side_trim :: "string \<Rightarrow> bool" where
  "missing_side_trim seg = (case split_on CHR '':'' seg of
                              c # h # _ \<Rightarrow> trim c = [] \<or> trim h = []
                            | _ \<Rightarrow> True)"

section \<open>A small world to run the handlers in\<close>

definition ex_node :: node where
  "ex_node = \<lparr>node_id = Some ''n1'', address = Some ''10.0.0.5'', port = Some ''3002'',
              apiKey = Some ''secret''\<rparr>"

definition ex_image :: image where
  "ex_image = \<lparr>img_Image = Some ''img/a'', Scripts = None, img_AltImages = Some [''img/b'']\<rparr>"

text \<open>An instance as a reinstall leaves it: its container id differs from its id.\<close>

definition ex_inst :: inst where
  "ex_inst = \<lparr>Name = Some ''alpha'', InstId = Some ''i1'', Node = Some ex_node,
              User = Some ''u1'', ContainerId = Some ''c1'', VolumeId = Some ''i1'',
              Memory = Some 1024, Cpu = Some 100, Ports = Some ''25565:25565'',
              Primary = Some ''25565'', InstImage = Some ''img/a'', AltImages = Some [''img/b''],
              imageData = Some ex_image, Env = Some (EnvArray [''A=1'']), suspended = None,
              currentimage = None, createdAt = None, updatedAt = None\<rparr>"

definition world_of :: "inst \<Rightarrow> world" where
  "world_of i = \<lparr>db_instance = [''i1'' \<mapsto> i], db_user_instances = [''u1'' \<mapsto> [i]],
                 db_instances = Some [i], db_node = [''n1'' \<mapsto> ex_node],
                 db_images = Some [ex_image], agent_calls = [], audit_log = [],
                 console_errors = []\<rparr>"

definition ex_world :: world where
  "ex_world = world_of ex_inst"

text \<open>The same world with the instance suspended.\<close>

definition ex_world_suspended :: world where
  "ex_world_suspended = world_of (ex_inst\<lparr>suspended := Some True\<rparr>)"

text \<open>A world where the record's key is its container id, as the edit route expects.\<close>

definition ex_world_fresh :: world where
  "ex_world_fresh = world_of (ex_inst\<lparr>ContainerId := Some ''i1''\<rparr>)"

definition ex_user :: user where
  "ex_user = \<lparr>userId = ''u1'', username = ''ann'', admin = True\<rparr>"

definition ex_body :: reply_body where
  "ex_body = \<lparr>containerId = Some ''c2'', newContainerId = Some ''c2''\<rparr>"

definition ex_collab :: collab where
  "ex_collab = \<lparr>isUserAuthorizedForContainer = (\<lambda>uid cid. True),
                axios = (\<lambda>r. AgentResponds (Some ex_body)),
                now = ''2024-01-01T00:00:00.000Z''\<rparr>"

text \<open>The same collaborators with every node agent unreachable.\<close>

definition ex_collab_down :: collab where
  "ex_collab_down = ex_collab\<lparr>axios := (\<lambda>r. AgentThrows None)\<rparr>"

text \<open>An empty request body to add port mappings to.\<close>

definition ex_deploy :: deploy_data where
  "ex_deploy = \<lparr>d_Name = None, d_Id = ''i1'', d_Image = None, d_Env = EnvArray [],
                d_Scripts = None, d_Memory = None, d_Cpu = None, ExposedPorts = [],
                PortBindings = [], d_AltImages = Some [], d_imageData = None\<rparr>"

text \<open>The small world with a second instance, named \<^verbatim>\<open>beta\<close>, in the global list.\<close>

definition ex_world_two :: world where
  "ex_world_two =
     ex_world\<lparr>db_instances := Some [ex_inst, ex_inst\<lparr>Name := Some ''beta'', InstId := Some ''i2''\<rparr>]\<rparr>"

text \<open>The world reached from \<open>ex_world_fresh\<close> by a reinstall of its instance.\<close>

definition ex_world_reinstalled :: world where
  "ex_world_reinstalled = snd (reinstall ex_collab (Some ex_user) ''i1'' ex_world_fresh)"

section \<open>The store's keys\<close>

lemma store_keys_disjoint:
  "instance_key a \<noteq> user_instances_key b"
  "instance_key a \<noteq> ''instances''"
  "instance_key a \<noteq> node_key n"
  "instance_key a \<noteq> ''images''"
  "user_instances_key b \<noteq> ''instances''"
  "user_instances_key b \<noteq> node_key n"
  "user_instances_key b \<noteq> ''images''"
  "node_key n \<noteq> ''instances''"
  "node_key n \<noteq> ''images''"
  unfolding instance_key_def user_instances_key_def node_key_def
  by (auto dest: arg_cong [where f = last] arg_cong [where f = length])

lemma store_keys_inj:
  "instance_key a = instance_key a' \<longleftrightarrow> a = a'"
  "user_instances_key b = user_instances_key b' \<longleftrightarrow> b = b'"
  "node_key n = node_key n' \<longleftrightarrow> n = n'"
  unfolding instance_key_def user_instances_key_def node_key_def by auto

section \<open>Strings and environment lists\<close>







lemma update_env_length_found:
  "list_ex (\<lambda>e. env_key e = v) env \<Longrightarrow> length (update_env v val env) = length env"
  by (simp add: update_env_def Let_def)

lemma uiuga_fields [simp]:
  "db_instance (updateInstanceInUserAndGlobalArrays r s) = db_instance s"
  "db_node (updateInstanceInUserAndGlobalArrays r s) = db_node s"
  "db_images (updateInstanceInUserAndGlobalArrays r s) = db_images s"
  "agent_calls (updateInstanceInUserAndGlobalArrays r s) = agent_calls s"
  "audit_log (updateInstanceInUserAndGlobalArrays r s) = audit_log s"
  "console_errors (updateInstanceInUserAndGlobalArrays r s) = console_errors s"
  "db_user_instances (updateInstanceInUserAndGlobalArrays r s) =
     (db_user_instances s)(tmpl (User r) \<mapsto>
        filter (\<lambda>i. InstId i \<noteq> InstId r) (case db_user_instances s (tmpl (User r)) of None \<Rightarrow> [] | Some l \<Rightarrow> l) @ [r])"
  "db_instances (updateInstanceInUserAndGlobalArrays r s) =
     Some (filter (\<lambda>i. InstId i \<noteq> InstId r) (case db_instances s of None \<Rightarrow> [] | Some l \<Rightarrow> l) @ [r])"
  by (simp_all add: updateInstanceInUserAndGlobalArrays_def Let_def)

lemma effect_fields [simp]:
  "db_instance (db_set_instance k i s) = (db_instance s)(k \<mapsto> i)"
  "db_user_instances (db_set_instance k i s) = db_user_instances s"
  "db_instances (db_set_instance k i s) = db_instances s"
  "db_node (db_set_instance k i s) = db_node s"
  "db_images (db_set_instance k i s) = db_images s"
  "agent_calls (db_set_instance k i s) = agent_calls s"
  "audit_log (db_set_instance k i s) = audit_log s"
  "console_errors (db_set_instance k i s) = console_errors s"
  "db_instance (logAudit a s) = db_instance s"
  "db_user_instances (logAudit a s) = db_user_instances s"
  "db_instances (logAudit a s) = db_instances s"
  "db_node (logAudit a s) = db_node s"
  "db_images (logAudit a s) = db_images s"
  "agent_calls (logAudit a s) = agent_calls s"
  "audit_log (logAudit a s) = audit_log s @ [a]"
  "console_errors (logAudit a s) = console_errors s"
  "db_instance (console_error m s) = db_instance s"
  "db_user_instances (console_error m s) = db_user_instances s"
  "db_instances (console_error m s) = db_instances s"
  "db_node (console_error m s) = db_node s"
  "db_images (console_error m s) = db_images s"
  "agent_calls (console_error m s) = agent_calls s"
  "audit_log (console_error m s) = audit_log s"
  "console_errors (console_error m s) = console_errors s @ [m]"
  "db_instance (send_request q s) = db_instance s"
  "db_user_instances (send_request q s) = db_user_instances s"
  "db_instances (send_request q s) = db_instances s"
  "db_node (send_request q s) = db_node s"
  "db_images (send_request q s) = db_images s"
  "agent_calls (send_request q s) = agent_calls s @ [q]"
  "audit_log (send_request q s) = audit_log s"
  "console_errors (send_request q s) = console_errors s"
  by (simp_all add: db_set_instance_def logAudit_def console_error_def send_request_def)




text \<open>What \<^verbatim>\<open>parseInt\<close> and \<^verbatim>\<open>trim\<close> do at the edges of their definitions.\<close>

lemma parseInt_below: "\<bar>n\<bar> < 10 ^ 21 \<Longrightarrow> parseInt n = n"
  by (simp add: parseInt_def)

lemma leading_digit_power: "0 < d \<Longrightarrow> d < 10 \<Longrightarrow> leading_digit (d * 10 ^ k) = d"
proof (induction k)
  case 0
  then show ?case by (simp add: leading_digit.simps)
next
  case (Suc k)
  have big: "\<not> d * 10 ^ Suc k < 10" using Suc.prems(1) by simp
  have "leading_digit (d * 10 ^ Suc k) = leading_digit (d * 10 ^ Suc k div 10)"
    using big by (subst leading_digit.simps) simp
  also have "d * 10 ^ Suc k div 10 = d * 10 ^ k" by simp
  finally show ?case using Suc by simp
qed

lemma parseInt_exponent_form: "parseInt (10 ^ 21) = 1"
  using leading_digit_power [of 1 21] by (simp add: parseInt_def)

lemma trim_no_break_space: "trim [CHR 0xA0, CHR ''8'', CHR '' ''] = ''8''"
  by (simp add: trim_def is_space_def)

section \<open>The request builder's port mappings\<close>

lemma split_on_no_sep: "c \<notin> set s \<Longrightarrow> split_on c s = [s]"
  by (induction s) auto

lemma add_port_mapping_skip: "missing_side seg \<Longrightarrow> add_port_mapping seg d = d"
  unfolding add_port_mapping_def missing_side_def
  by (auto split: list.splits)

lemma add_port_mapping_trim_skip: "missing_side_trim seg \<Longrightarrow> add_port_mapping_trim seg d = d"
  unfolding add_port_mapping_trim_def missing_side_trim_def
  by (auto split: list.splits)

lemma no_colon_missing: "CHR '':'' \<notin> set seg \<Longrightarrow> missing_side seg \<and> missing_side_trim seg"
  by (simp add: missing_side_def missing_side_trim_def split_on_no_sep)

lemma foldl_skip:
  "foldl (\<lambda>acc pm. add_port_mapping pm acc) d segs =
   foldl (\<lambda>acc pm. add_port_mapping pm acc) d (filter (\<lambda>seg. \<not> missing_side seg) segs)"
  by (induction segs arbitrary: d) (simp_all add: add_port_mapping_skip)

lemma foldl_trim_skip:
  "foldl (\<lambda>acc pm. add_port_mapping_trim pm acc) d segs =
   foldl (\<lambda>acc pm. add_port_mapping_trim pm acc) d (filter (\<lambda>seg. \<not> missing_side_trim seg) segs)"
  by (induction segs arbitrary: d) (simp_all add: add_port_mapping_trim_skip)

lemma add_ports_skip:
  "add_ports (Some p) d =
   foldl (\<lambda>acc pm. add_port_mapping pm acc) d (filter (\<lambda>seg. \<not> missing_side seg) (split_on CHR '','' p))"
proof (cases "p = []")
  case True
  then show ?thesis by (simp add: add_ports_def missing_side_def)
next
  case False
  then show ?thesis using foldl_skip by (simp add: add_ports_def)
qed

lemma add_ports_trim_skip:
  "add_ports_trim (Some p) d =
   foldl (\<lambda>acc pm. add_port_mapping_trim pm acc) d (filter (\<lambda>seg. \<not> missing_side_trim seg) (split_on CHR '','' p))"
proof (cases "p = []")
  case True
  then show ?thesis by (simp add: add_ports_trim_def missing_side_trim_def)
next
  case False
  then show ?thesis using foldl_trim_skip by (simp add: add_ports_trim_def)
qed

lemma ports_example:
  "\<exists>dd. data (prepareRequestData imgs img m k (Some ''25565:25565,8080:8080'') n nd i cid e) = DeployData dd
  \<and> ExposedPorts dd = [(''25565/tcp'', ()), (''8080/tcp'', ())]
  \<and> PortBindings dd = [(''25565/tcp'', [''25565'']), (''8080/tcp'', [''8080''])]"
  by (simp add: prepareRequestData_def add_ports_def add_port_mapping_def Let_def)

lemma ports_example_reinstall:
  "\<exists>dd. data (prepareRequestData_reinstall imgs img m k (Some ''25565:25565,8080:8080'') n nd i cid e) = DeployData dd
  \<and> ExposedPorts dd = [(''25565/tcp'', ()), (''8080/tcp'', ())]
  \<and> PortBindings dd = [(''25565/tcp'', [''25565'']), (''8080/tcp'', [''8080''])]"
  by (simp add: prepareRequestData_reinstall_def add_ports_trim_def add_port_mapping_trim_def Let_def trim_def is_space_def)

text \<open>
  C8. Both request builders translate the port string \<^verbatim>\<open>25565:25565,8080:8080\<close> into
  exactly two exposed-port entries and two port-binding entries, keyed \<^verbatim>\<open>25565/tcp\<close> and
  \<^verbatim>\<open>8080/tcp\<close>. A segment with a missing container-port or host-port side, such as one
  with no colon, leaves the request unchanged, and the whole loop is the same as the
  loop over the segments that have both sides. The builders are total: no input makes
  them fail.
\<close>

theorem port_mappings_translated:
  "(\<exists>dd. data (prepareRequestData imgs img m k (Some ''25565:25565,8080:8080'') n nd i cid e)
           = DeployData dd
         \<and> ExposedPorts dd = [(''25565/tcp'', ()), (''8080/tcp'', ())]
         \<and> PortBindings dd = [(''25565/tcp'', [''25565'']), (''8080/tcp'', [''8080''])])
   \<and> (\<exists>dd. data (prepareRequestData_reinstall imgs img m k (Some ''25565:25565,8080:8080'')
                  n nd i cid e) = DeployData dd
         \<and> ExposedPorts dd = [(''25565/tcp'', ()), (''8080/tcp'', ())]
         \<and> PortBindings dd = [(''25565/tcp'', [''25565'']), (''8080/tcp'', [''8080''])])
   \<and> (missing_side seg \<longrightarrow> add_port_mapping seg d = d)
   \<and> (missing_side_trim seg \<longrightarrow> add_port_mapping_trim seg d = d)
   \<and> (CHR '':'' \<notin> set seg \<longrightarrow> missing_side seg \<and> missing_side_trim seg)
   \<and> add_ports (Some p) d =
       foldl (\<lambda>acc pm. add_port_mapping pm acc) d
         (filter (\<lambda>x. \<not> missing_side x) (split_on CHR '','' p))
   \<and> add_ports_trim (Some p) d =
       foldl (\<lambda>acc pm. add_port_mapping_trim pm acc) d
         (filter (\<lambda>x. \<not> missing_side_trim x) (split_on CHR '','' p))"
  using ports_example [of imgs img m k n nd i cid e]
    ports_example_reinstall [of imgs img m k n nd i cid e]
    add_port_mapping_skip [of seg d] add_port_mapping_trim_skip [of seg d]
    no_colon_missing [of seg] add_ports_skip [of p d] add_ports_trim_skip [of p d]
  by blast

theorem port_mappings_translated_witness:
  "CHR '':'' \<notin> set ''25565'' \<and> missing_side ''25565'' \<and> missing_side_trim ''25565''
   \<and> add_port_mapping ''25565'' ex_deploy = ex_deploy
   \<and> add_port_mapping_trim ''25565'' ex_deploy = ex_deploy
   \<and> ExposedPorts (add_ports (Some ''25565:25565,25565,8080:8080'') ex_deploy)
       = [(''25565/tcp'', ()), (''8080/tcp'', ())]
   \<and> PortBindings (add_ports_trim (Some ''25565:25565,25565,8080:8080'') ex_deploy)
       = [(''25565/tcp'', [''25565'']), (''8080/tcp'', [''8080''])]"
  using port_mappings_translated [of None "''img/a''" None None None ex_node "''i1''" None None "''25565''" ex_deploy
      "''25565:25565,25565,8080:8080''"]
  by (simp add: missing_side_def missing_side_trim_def add_port_mapping_def add_port_mapping_trim_def
      trim_def is_space_def ex_deploy_def Let_def)

section \<open>Running the handlers on the small world\<close>

lemmas ex_defs = ex_world_def ex_world_suspended_def ex_world_fresh_def world_of_def ex_inst_def
  ex_node_def ex_image_def ex_user_def ex_collab_def ex_collab_down_def ex_body_def

lemmas run_defs = Let_def truthy_def truthy_num_def tmpl_def or_empty_def or_else_def
  or_else_num_def parseInt_or_def parseInt_def parseInt_if_def migrate_suspended_def
  db_set_instance_def logAudit_def console_error_def send_request_def
  updateInstanceInUserAndGlobalArrays_def

section \<open>Changing an environment variable\<close>

text \<open>
  The handler accepts any non-empty variable name. A name that contains \<^verbatim>\<open>=\<close> is never
  found again, because the key of an entry stops at its first \<^verbatim>\<open>=\<close>: each application
  appends one more entry.
\<close>

lemma update_env_name_with_equals:
  "update_env ''A=B'' (Some ''x'') (update_env ''A=B'' (Some ''x'') [])
     = [''A=B=x'', ''A=B=x'']"
  by (simp add: update_env_def env_key_def or_empty_def)




section \<open>Renaming an instance\<close>

lemma only_entry_push:
  "only_entry r (Some (filter (\<lambda>i. InstId i \<noteq> InstId r) xs @ [r]))"
  by (induction xs) (auto simp: only_entry_def)

lemma views_agree_after_update:
  "views_agree (updateInstanceInUserAndGlobalArrays r (db_set_instance k r s)) k r"
  by (simp add: views_agree_def only_entry_push)

lemma views_agree_frame:
  assumes "db_instance s' = db_instance s" "db_user_instances s' = db_user_instances s"
    "db_instances s' = db_instances s"
  shows "views_agree s' k r = views_agree s k r"
  using assms by (simp add: views_agree_def)

lemma notify_rename_fields [simp]:
  "db_instance (notify_rename c i n s) = db_instance s"
  "db_user_instances (notify_rename c i n s) = db_user_instances s"
  "db_instances (notify_rename c i n s) = db_instances s"
  "db_node (notify_rename c i n s) = db_node s"
  "db_images (notify_rename c i n s) = db_images s"
  "audit_log (notify_rename c i n s) = audit_log s"
  by (simp_all add: notify_rename_def split: option.splits agent_reply.splits)

lemma rename_accept:
  assumes "ru = Some u" "ident \<noteq> []" "3 \<le> length n" "length n \<le> 32"
    "db_instance s ident = Some i"
    "isUserAuthorizedForContainer c (userId u) (InstId i)"
    "suspended i \<noteq> Some True"
    "\<not> list_ex (\<lambda>x. Name x = Some n \<and> InstId x \<noteq> Some ident)
         (case db_instances s of None \<Rightarrow> [] | Some l \<Rightarrow> l)"
  shows "rename c ru ident (Some n) s =
           (JsonSuccess, logAudit ''instance:rename'' (notify_rename c i n
              (updateInstanceInUserAndGlobalArrays (i\<lparr>Name := Some n\<rparr>)
                 (db_set_instance ident (i\<lparr>Name := Some n\<rparr>) s))))"
proof -
  have "n \<noteq> []" using assms(3) by auto
  then show ?thesis
    using assms unfolding rename_def by (simp add: Let_def truthy_def tmpl_def)
qed


lemma rename_rejected:
  assumes "ru = Some u" "ident \<noteq> []"
    "db_instance s ident = Some i"
    "isUserAuthorizedForContainer c (userId u) (InstId i)"
    "suspended i \<noteq> Some True"
    "length n < 3 \<or> 32 < length n
     \<or> list_ex (\<lambda>x. Name x = Some n \<and> InstId x \<noteq> Some ident)
         (case db_instances s of None \<Rightarrow> [] | Some l \<Rightarrow> l)"
  shows "\<exists>msg. rename c ru ident (Some n) s = (JsonError 400 msg, s)"
  using assms unfolding rename_def by (auto simp: Let_def truthy_def tmpl_def)

text \<open>
  C5. For an authenticated and authorised caller and an existing instance \<open>X\<close> that is
  not suspended, renaming to \<open>N\<close> is answered with status 400 exactly when \<open>N\<close> is shorter
  than 3 or longer than 32 characters, or some entry of the global list with an Id other
  than \<open>X\<close> has Name \<open>N\<close>; otherwise the rename succeeds. In particular a name of valid
  length that only entries with Id \<open>X\<close> carry, such as the instance's own current name,
  is accepted.
\<close>

theorem rename_validation:
  assumes "ru = Some u" "ident \<noteq> []" "db_instance s ident = Some i"
    "isUserAuthorizedForContainer c (userId u) (InstId i)" "suspended i \<noteq> Some True"
  shows "((\<exists>msg. fst (rename c ru ident (Some n) s) = JsonError 400 msg) \<longleftrightarrow>
            (length n < 3 \<or> 32 < length n
             \<or> (\<exists>x\<in>set (case db_instances s of None \<Rightarrow> [] | Some l \<Rightarrow> l).
                   Name x = Some n \<and> InstId x \<noteq> Some ident)))
       \<and> ((\<nexists>msg. fst (rename c ru ident (Some n) s) = JsonError 400 msg) \<longrightarrow>
            fst (rename c ru ident (Some n) s) = JsonSuccess)
       \<and> (3 \<le> length n \<and> length n \<le> 32
            \<and> (\<forall>x\<in>set (case db_instances s of None \<Rightarrow> [] | Some l \<Rightarrow> l).
                  Name x = Some n \<longrightarrow> InstId x = Some ident)
          \<longrightarrow> fst (rename c ru ident (Some n) s) = JsonSuccess)"
proof (cases "length n < 3 \<or> 32 < length n
     \<or> list_ex (\<lambda>x. Name x = Some n \<and> InstId x \<noteq> Some ident)
         (case db_instances s of None \<Rightarrow> [] | Some l \<Rightarrow> l)")
  case True
  from rename_rejected [OF assms True] obtain msg
    where "rename c ru ident (Some n) s = (JsonError 400 msg, s)" by blast
  with True show ?thesis by (auto simp: list_ex_iff)
next
  case False
  then have "rename c ru ident (Some n) s =
           (JsonSuccess, logAudit ''instance:rename'' (notify_rename c i n
              (updateInstanceInUserAndGlobalArrays (i\<lparr>Name := Some n\<rparr>)
                 (db_set_instance ident (i\<lparr>Name := Some n\<rparr>) s))))"
    using rename_accept [OF assms(1,2) _ _ assms(3,4,5), of n] by simp
  with False show ?thesis by (auto simp: list_ex_iff)
qed

theorem rename_validation_witness:
  "fst (rename ex_collab (Some ex_user) ''i1'' (Some ''alpha'') ex_world_two) = JsonSuccess
   \<and> fst (rename ex_collab (Some ex_user) ''i1'' (Some ''beta'') ex_world_two)
       = JsonError 400 ''Instance name already in use''
   \<and> fst (rename ex_collab (Some ex_user) ''i1'' (Some ''ab'') ex_world_two)
       = JsonError 400 ''Name must be between 3 and 32 characters''
   \<and> map_option Name (db_instance ex_world_two ''i1'') = Some (Some ''alpha'')"
proof -
  have pre: "Some ex_user = Some ex_user" "''i1'' \<noteq> []"
    "db_instance ex_world_two ''i1'' = Some ex_inst"
    "isUserAuthorizedForContainer ex_collab (userId ex_user) (InstId ex_inst)"
    "suspended ex_inst \<noteq> Some True"
    by (simp_all add: ex_world_two_def ex_defs)
  have own: "3 \<le> length ''alpha'' \<and> length ''alpha'' \<le> 32
      \<and> (\<forall>x\<in>set (case db_instances ex_world_two of None \<Rightarrow> [] | Some l \<Rightarrow> l).
             Name x = Some ''alpha'' \<longrightarrow> InstId x = Some ''i1'')"
    by (simp add: ex_world_two_def ex_defs)
  have a: "fst (rename ex_collab (Some ex_user) ''i1'' (Some ''alpha'') ex_world_two) = JsonSuccess"
    using rename_validation [OF pre, of "''alpha''"] own by blast
  have taken: "\<exists>x\<in>set (case db_instances ex_world_two of None \<Rightarrow> [] | Some l \<Rightarrow> l).
                   Name x = Some ''beta'' \<and> InstId x \<noteq> Some ''i1''"
    by (simp add: ex_world_two_def ex_defs)
  have b: "\<exists>msg. fst (rename ex_collab (Some ex_user) ''i1'' (Some ''beta'') ex_world_two)
       = JsonError 400 msg"
    using rename_validation [OF pre, of "''beta''"] taken by blast
  have b': "fst (rename ex_collab (Some ex_user) ''i1'' (Some ''beta'') ex_world_two)
       = JsonError 400 ''Instance name already in use''"
    by (simp add: rename_def ex_world_two_def ex_defs run_defs)
  have c: "fst (rename ex_collab (Some ex_user) ''i1'' (Some ''ab'') ex_world_two)
       = JsonError 400 ''Name must be between 3 and 32 characters''"
    by (simp add: rename_def ex_world_two_def ex_defs run_defs)
  show ?thesis using a b b' c pre(3) by (simp add: ex_inst_def)
qed

text \<open>
  C7. When a rename passes its checks and the request to the node agent throws, the
  failure is written to the error log and nothing else happens to it: the route answers
  with success, and the record and both lists carry the new name.
\<close>

theorem rename_survives_agent_failure:
  assumes "ru = Some u" "ident \<noteq> []" "3 \<le> length n" "length n \<le> 32"
    "db_instance s ident = Some i"
    "isUserAuthorizedForContainer c (userId u) (InstId i)"
    "suspended i \<noteq> Some True"
    "\<not> list_ex (\<lambda>x. Name x = Some n \<and> InstId x \<noteq> Some ident)
         (case db_instances s of None \<Rightarrow> [] | Some l \<Rightarrow> l)"
    "Node i = Some nd" "truthy (ContainerId i)"
    "axios c (rename_request i nd n) = AgentThrows st"
  shows "\<exists>s'. rename c ru ident (Some n) s = (JsonSuccess, s')
           \<and> views_agree s' ident (i\<lparr>Name := Some n\<rparr>)
           \<and> agent_calls s' = agent_calls s @ [rename_request i nd n]
           \<and> console_errors s' = console_errors s @ [''Failed to update container name on node:'']
           \<and> audit_log s' = audit_log s @ [''instance:rename'']"
proof -
  let ?r = "i\<lparr>Name := Some n\<rparr>"
  let ?s2 = "updateInstanceInUserAndGlobalArrays ?r (db_set_instance ident ?r s)"
  let ?s' = "logAudit ''instance:rename'' (notify_rename c i n ?s2)"
  have run: "rename c ru ident (Some n) s = (JsonSuccess, ?s')"
    using rename_accept [OF assms(1-8)] .
  have notified: "notify_rename c i n ?s2 =
      console_error ''Failed to update container name on node:''
        (send_request (rename_request i nd n) ?s2)"
    using assms(9-11) by (simp add: notify_rename_def)
  have "views_agree ?s' ident ?r = views_agree ?s2 ident ?r"
    by (rule views_agree_frame) simp_all
  then have v: "views_agree ?s' ident ?r"
    using views_agree_after_update by simp
  have calls: "agent_calls ?s' = agent_calls s @ [rename_request i nd n]"
    by (simp add: notified)
  have cons: "console_errors ?s' = console_errors s @ [''Failed to update container name on node:'']"
    by (simp add: notified)
  have aud: "audit_log ?s' = audit_log s @ [''instance:rename'']"
    by simp
  show ?thesis using run v calls cons aud by blast
qed

theorem rename_survives_agent_failure_witness:
  "fst (rename ex_collab_down (Some ex_user) ''i1'' (Some ''gamma'') ex_world) = JsonSuccess
   \<and> map_option Name (db_instance
        (snd (rename ex_collab_down (Some ex_user) ''i1'' (Some ''gamma'') ex_world)) ''i1'')
       = Some (Some ''gamma'')
   \<and> console_errors (snd (rename ex_collab_down (Some ex_user) ''i1'' (Some ''gamma'') ex_world))
       = [''Failed to update container name on node:'']"
proof -
  have pre: "Some ex_user = Some ex_user" "''i1'' \<noteq> []" "3 \<le> length ''gamma''"
    "length ''gamma'' \<le> 32"
    "db_instance ex_world ''i1'' = Some ex_inst"
    "isUserAuthorizedForContainer ex_collab_down (userId ex_user) (InstId ex_inst)"
    "suspended ex_inst \<noteq> Some True"
    "\<not> list_ex (\<lambda>x. Name x = Some ''gamma'' \<and> InstId x \<noteq> Some ''i1'')
         (case db_instances ex_world of None \<Rightarrow> [] | Some l \<Rightarrow> l)"
    "Node ex_inst = Some ex_node" "truthy (ContainerId ex_inst)"
    "axios ex_collab_down (rename_request ex_inst ex_node ''gamma'') = AgentThrows None"
    by (simp_all add: ex_defs truthy_def)
  from rename_survives_agent_failure [OF pre] obtain s' where
    "rename ex_collab_down (Some ex_user) ''i1'' (Some ''gamma'') ex_world = (JsonSuccess, s')"
    "views_agree s' ''i1'' (ex_inst\<lparr>Name := Some ''gamma''\<rparr>)"
    "console_errors s' = console_errors ex_world @ [''Failed to update container name on node:'']"
    by blast
  then show ?thesis by (simp add: views_agree_def ex_world_def world_of_def)
qed

section \<open>Editing an instance\<close>

lemma findIndex_None: "findIndex p xs = None \<longleftrightarrow> \<not> list_ex p xs"
  by (induction xs) (auto split: option.splits)

lemma findIndex_absent: "\<not> list_ex p xs \<Longrightarrow> findIndex p xs = None"
  by (simp add: findIndex_None)


lemma updateUserInstances_fields [simp]:
  "db_instance (updateUserInstances usr old r s) = db_instance s"
  "db_instances (updateUserInstances usr old r s) = db_instances s"
  "db_node (updateUserInstances usr old r s) = db_node s"
  "db_images (updateUserInstances usr old r s) = db_images s"
  "agent_calls (updateUserInstances usr old r s) = agent_calls s"
  "audit_log (updateUserInstances usr old r s) = audit_log s"
  "console_errors (updateUserInstances usr old r s) = console_errors s"
  by (simp_all add: updateUserInstances_def Let_def split: option.splits)

lemma updateGlobalInstances_fields [simp]:
  "db_instance (updateGlobalInstances old r s) = db_instance s"
  "db_user_instances (updateGlobalInstances old r s) = db_user_instances s"
  "db_node (updateGlobalInstances old r s) = db_node s"
  "db_images (updateGlobalInstances old r s) = db_images s"
  "agent_calls (updateGlobalInstances old r s) = agent_calls s"
  "audit_log (updateGlobalInstances old r s) = audit_log s"
  "console_errors (updateGlobalInstances old r s) = console_errors s"
  by (simp_all add: updateGlobalInstances_def Let_def split: option.splits)

lemma updateUserInstances_absent:
  "\<not> has_container old (db_user_instances s (tmpl usr)) \<Longrightarrow>
     updateUserInstances usr old r s = s"
  by (cases "db_user_instances s (tmpl usr)")
    (simp_all add: updateUserInstances_def has_container_def findIndex_absent)

lemma updateGlobalInstances_absent:
  "\<not> has_container old (db_instances s) \<Longrightarrow> updateGlobalInstances old r s = s"
  by (cases "db_instances s")
    (simp_all add: updateGlobalInstances_def has_container_def findIndex_absent)





lemma updateInstanceInDatabase_eq:
  "updateInstanceInDatabase c ident i img memory cpu newId s =
     (edited c i img memory cpu newId,
      updateGlobalInstances ident (edited c i img memory cpu newId)
        (updateUserInstances (User i) ident (edited c i img memory cpu newId)
           (s\<lparr>db_instance := ((db_instance s)(newId \<mapsto> edited c i img memory cpu newId))
                               (ident := None)\<rparr>)))"
  by (simp add: updateInstanceInDatabase_def edited_def Let_def)

lemma edit_accept:
  assumes "edit_accepts c ru ident img memory cpu s i nd newId"
  shows "edit c ru ident img memory cpu s =
           (JsonEdited ident newId (truthy img) (truthy_num memory) (truthy_num cpu),
            logAudit ''instance:edit''
              (snd (updateInstanceInDatabase c ident i img memory cpu newId
                      (send_request (prepareEditRequestData i nd img memory cpu) s))))"
  using assms unfolding edit_accepts_def edit_def
  by (auto simp: Let_def truthy_num_def split: option.splits agent_reply.splits prod.splits)

lemma edit_success:
  assumes "edit c ru ident img memory cpu s = (JsonEdited old new x y z, s')"
  obtains i nd where "edit_accepts c ru ident img memory cpu s i nd new" "old = ident"
    "s' = logAudit ''instance:edit''
              (snd (updateInstanceInDatabase c ident i img memory cpu new
                      (send_request (prepareEditRequestData i nd img memory cpu) s)))"
  using assms unfolding edit_accepts_def edit_def edit_caught_def
  by (auto simp: Let_def truthy_num_def split: option.splits agent_reply.splits prod.splits if_splits)

lemma edit_accepts_iff:
  "(\<exists>s'. edit c ru ident img memory cpu s
            = (JsonEdited ident newId (truthy img) (truthy_num memory) (truthy_num cpu), s'))
   \<longleftrightarrow> (\<exists>i nd. edit_accepts c ru ident img memory cpu s i nd newId)"
  using edit_accept edit_success by metis

lemma edit_result:
  assumes "edit_accepts c ru ident img memory cpu s i nd newId"
  defines "r \<equiv> edited c i img memory cpu newId"
  defines "s' \<equiv> snd (edit c ru ident img memory cpu s)"
  shows "fst (edit c ru ident img memory cpu s)
           = JsonEdited ident newId (truthy img) (truthy_num memory) (truthy_num cpu)"
    and "db_instance s' = ((db_instance s)(newId \<mapsto> r))(ident := None)"
    and "db_user_instances s' = db_user_instances (updateUserInstances (User i) ident r s)"
    and "db_instances s' = db_instances (updateGlobalInstances ident r s)"
    and "agent_calls s' = agent_calls s @ [prepareEditRequestData i nd img memory cpu]"
proof -
  show "fst (edit c ru ident img memory cpu s)
           = JsonEdited ident newId (truthy img) (truthy_num memory) (truthy_num cpu)"
    by (simp add: edit_accept [OF assms(1)])
  show "db_instance s' = ((db_instance s)(newId \<mapsto> r))(ident := None)"
    by (simp add: s'_def r_def edit_accept [OF assms(1)] updateInstanceInDatabase_eq)
  show "db_user_instances s' = db_user_instances (updateUserInstances (User i) ident r s)"
    by (simp add: s'_def r_def edit_accept [OF assms(1)] updateInstanceInDatabase_eq
        updateUserInstances_def Let_def split: option.splits)
  show "db_instances s' = db_instances (updateGlobalInstances ident r s)"
    by (simp add: s'_def r_def edit_accept [OF assms(1)] updateInstanceInDatabase_eq
        updateGlobalInstances_def Let_def split: option.splits)
  show "agent_calls s' = agent_calls s @ [prepareEditRequestData i nd img memory cpu]"
    by (simp add: s'_def r_def edit_accept [OF assms(1)] updateInstanceInDatabase_eq)
qed

text \<open>
  C10. When an edit is carried out and the list of the instance's user has no entry
  whose ContainerId is the old id, that list (indeed every user's list) is exactly as
  before; likewise the global list. The route still answers with success, and the
  per-instance map is the old one with the edited record set under the new container
  id and the old key removed, so for a new id other than the old one the record is
  found under the new key.
\<close>

theorem edit_leaves_lists_without_entry:
  assumes "edit_accepts c ru ident img memory cpu s i nd newId"
  shows "fst (edit c ru ident img memory cpu s)
           = JsonEdited ident newId (truthy img) (truthy_num memory) (truthy_num cpu)
       \<and> (\<not> has_container ident (db_user_instances s (tmpl (User i))) \<longrightarrow>
            db_user_instances (snd (edit c ru ident img memory cpu s)) = db_user_instances s)
       \<and> (\<not> has_container ident (db_instances s) \<longrightarrow>
            db_instances (snd (edit c ru ident img memory cpu s)) = db_instances s)
       \<and> db_instance (snd (edit c ru ident img memory cpu s))
           = ((db_instance s)(newId \<mapsto> edited c i img memory cpu newId))(ident := None)
       \<and> (newId \<noteq> ident \<longrightarrow>
            db_instance (snd (edit c ru ident img memory cpu s)) newId
              = Some (edited c i img memory cpu newId))"
  using edit_result [OF assms]
    updateUserInstances_absent [of ident s "User i" "edited c i img memory cpu newId"]
    updateGlobalInstances_absent [of ident s "edited c i img memory cpu newId"]
  by auto

lemmas edit_run_defs = edit_def edit_caught_def valid_node_def prepareEditRequestData_def
  updateInstanceInDatabase_def updateUserInstances_def updateGlobalInstances_def spread_def
  keep_def

theorem edit_leaves_lists_without_entry_witness:
  "edit_accepts ex_collab (Some ex_user) ''i1'' None (Some 2048) None ex_world ex_inst ex_node ''c2''
   \<and> \<not> has_container ''i1'' (db_user_instances ex_world (tmpl (User ex_inst)))
   \<and> \<not> has_container ''i1'' (db_instances ex_world)
   \<and> ''c2'' \<noteq> ''i1''
   \<and> fst (edit ex_collab (Some ex_user) ''i1'' None (Some 2048) None ex_world)
       = JsonEdited ''i1'' ''c2'' False True False
   \<and> db_user_instances (snd (edit ex_collab (Some ex_user) ''i1'' None (Some 2048) None ex_world))
       = db_user_instances ex_world
   \<and> db_instances (snd (edit ex_collab (Some ex_user) ''i1'' None (Some 2048) None ex_world))
       = db_instances ex_world
   \<and> db_instance (snd (edit ex_collab (Some ex_user) ''i1'' None (Some 2048) None ex_world)) ''c2''
       = Some (edited ex_collab ex_inst None (Some 2048) None ''c2'')"
proof -
  have acc: "edit_accepts ex_collab (Some ex_user) ''i1'' None (Some 2048) None ex_world
               ex_inst ex_node ''c2''"
    by (simp add: edit_accepts_def ex_defs run_defs valid_node_def)
  have nu: "\<not> has_container ''i1'' (db_user_instances ex_world (tmpl (User ex_inst)))"
    by (simp add: has_container_def ex_defs run_defs)
  have ng: "\<not> has_container ''i1'' (db_instances ex_world)"
    by (simp add: has_container_def ex_defs run_defs)
  show ?thesis
    using edit_leaves_lists_without_entry [OF acc] acc nu ng
    by (simp add: truthy_def truthy_num_def)
qed

section \<open>What each handler does to the store\<close>


lemma instanceData_redeploy_fields [simp]:
  "InstId (instanceData_redeploy imgs rd usr nd img mem cpu ports prim nm ident cur idata env) = Some ident"
  "User (instanceData_redeploy imgs rd usr nd img mem cpu ports prim nm ident cur idata env) = Some usr"
  "ContainerId (instanceData_redeploy imgs rd usr nd img mem cpu ports prim nm ident cur idata env) = containerId rd"
  "InstImage (instanceData_redeploy imgs rd usr nd img mem cpu ports prim nm ident cur idata env) = img"
  "currentimage (instanceData_redeploy imgs rd usr nd img mem cpu ports prim nm ident cur idata env) = Some cur"
  "Name (instanceData_redeploy imgs rd usr nd img mem cpu ports prim nm ident cur idata env) = nm"
  "suspended (instanceData_redeploy imgs rd usr nd img mem cpu ports prim nm ident cur idata env) = Some False"
  by (simp_all add: instanceData_redeploy_def Let_def)

lemma instanceData_reinstall_fields [simp]:
  "InstId (instanceData_reinstall c imgs rd usr nd img mem cpu ports prim nm ident env) = Some ident"
  "User (instanceData_reinstall c imgs rd usr nd img mem cpu ports prim nm ident env) = Some usr"
  "ContainerId (instanceData_reinstall c imgs rd usr nd img mem cpu ports prim nm ident env) = containerId rd"
  "InstImage (instanceData_reinstall c imgs rd usr nd img mem cpu ports prim nm ident env) = Some img"
  "Name (instanceData_reinstall c imgs rd usr nd img mem cpu ports prim nm ident env) = nm"
  "suspended (instanceData_reinstall c imgs rd usr nd img mem cpu ports prim nm ident env) = None"
  by (simp_all add: instanceData_reinstall_def Let_def)

lemma updateDatabaseWithNewInstance_eq:
  "updateDatabaseWithNewInstance rd usr nd img mem cpu ports prim nm ident cur idata env s
     = db_set_instance ident
         (instanceData_redeploy (db_images s) rd usr nd img mem cpu ports prim nm ident cur idata env)
         (updateInstanceInUserAndGlobalArrays
            (instanceData_redeploy (db_images s) rd usr nd img mem cpu ports prim nm ident cur idata env) s)"
  by (simp add: updateDatabaseWithNewInstance_def Let_def)

lemma updateDatabaseWithNewInstance_reinstall_eq:
  "updateDatabaseWithNewInstance_reinstall c rd usr nd img mem cpu ports prim nm ident env s
     = logAudit ''database''
         (db_set_instance ident
            (instanceData_reinstall c (db_images s) rd usr nd img mem cpu ports prim nm ident env)
            (updateInstanceInUserAndGlobalArrays
               (instanceData_reinstall c (db_images s) rd usr nd img mem cpu ports prim nm ident env) s))"
  by (simp add: updateDatabaseWithNewInstance_reinstall_def Let_def
      updateInstanceInUserAndGlobalArrays_def db_set_instance_def logAudit_def tmpl_def)

lemma migrate_fields [simp]:
  "db_user_instances (snd (migrate_suspended k i s)) = db_user_instances s"
  "db_instances (snd (migrate_suspended k i s)) = db_instances s"
  "db_node (snd (migrate_suspended k i s)) = db_node s"
  "db_images (snd (migrate_suspended k i s)) = db_images s"
  "agent_calls (snd (migrate_suspended k i s)) = agent_calls s"
  "audit_log (snd (migrate_suspended k i s)) = audit_log s"
  "console_errors (snd (migrate_suspended k i s)) = console_errors s"
  by (simp_all add: migrate_suspended_def)

lemma writes_own_key_refl [simp]: "writes_own_key ident s s"
  by (simp add: writes_own_key_def)

lemma writes_own_keyI:
  assumes "db_instance s ident \<noteq> None" "db_instance s' ident \<noteq> None"
    "\<And>k. k \<noteq> ident \<Longrightarrow> db_instance s' k = db_instance s k"
  shows "writes_own_key ident s s'"
proof -
  have "k \<in> dom (db_instance s') \<longleftrightarrow> k \<in> dom (db_instance s)" for k
    using assms by (cases "k = ident") (auto simp: dom_def)
  then show ?thesis using assms(3) by (auto simp: writes_own_key_def)
qed

lemma get_startup_own_key: "writes_own_key ident s (snd (get_startup c ru ident s))"
  unfolding get_startup_def
  by (auto simp: migrate_suspended_def split: option.splits prod.splits if_splits
      intro!: writes_own_keyI)

lemma rename_own_key: "writes_own_key ident s (snd (rename c ru ident nn s))"
  unfolding rename_def
  by (auto simp: Let_def split: option.splits intro!: writes_own_keyI)

lemma changevariable_own_key: "writes_own_key ident s (snd (changevariable c ru ident v val s))"
  unfolding changevariable_def
  by (auto simp: Let_def migrate_suspended_def split: option.splits prod.splits if_splits env_value.splits
      intro!: writes_own_keyI)


lemma caught_fields [simp]:
  "db_instance (snd (reinstall_caught e s)) = db_instance s"
  "db_user_instances (snd (reinstall_caught e s)) = db_user_instances s"
  "db_instances (snd (reinstall_caught e s)) = db_instances s"
  "agent_calls (snd (reinstall_caught e s)) = agent_calls s"
  "db_instance (snd (changeimage_caught e s)) = db_instance s"
  "db_user_instances (snd (changeimage_caught e s)) = db_user_instances s"
  "db_instances (snd (changeimage_caught e s)) = db_instances s"
  "agent_calls (snd (changeimage_caught e s)) = agent_calls s"
  "db_instance (snd (edit_caught e s)) = db_instance s"
  "db_user_instances (snd (edit_caught e s)) = db_user_instances s"
  "db_instances (snd (edit_caught e s)) = db_instances s"
  "agent_calls (snd (edit_caught e s)) = agent_calls s"
  by (simp_all add: reinstall_caught_def changeimage_caught_def edit_caught_def)

lemma caught_response [simp]:
  "fst (reinstall_caught e s) = JsonCaught 500 ''Failed to reinstall container'' e"
  "fst (changeimage_caught e s) = JsonCaught 500 ''Failed to change container image'' e"
  by (simp_all add: reinstall_caught_def changeimage_caught_def)

lemma reinstall_own_key: "writes_own_key ident s (snd (reinstall c ru ident s))"
  unfolding reinstall_def
  by (auto simp: Let_def updateDatabaseWithNewInstance_reinstall_eq
      split: option.splits agent_reply.splits intro!: writes_own_keyI)

lemma changeimage_own_key: "writes_own_key ident s (snd (changeimage c ru ident img usr s))"
  unfolding changeimage_def
  by (auto simp: Let_def updateDatabaseWithNewInstance_eq migrate_suspended_def
      split: option.splits agent_reply.splits prod.splits if_splits intro!: writes_own_keyI)





section \<open>The record's key\<close>

text \<open>
  When the agent answers an edit with the id the record is already stored under, the
  batch sets that key and then deletes it: the record is gone.
\<close>

lemma edit_same_id_drops_record:
  assumes "edit_accepts c ru ident img memory cpu s i nd ident"
  shows "db_instance (snd (edit c ru ident img memory cpu s)) ident = None"
  using edit_result(2) [OF assms] by simp

text \<open>
  C3. After a successful edit of the instance stored under \<open>X\<close> that yields a new
  container id \<open>C\<close> (one other than \<open>X\<close>), the edited record is stored under \<open>C\<close>, nothing is
  stored under \<open>X\<close> any more, and no other key is touched. Edit is the only operation whose
  record key changes: reinstall, rename, env-change, image-change and the startup page
  leave the set of record keys as it was and change no record but the one under \<open>X\<close>.
\<close>

theorem edit_moves_the_record:
  "(edit c ru ident img memory cpu s = (JsonEdited old new x y z, s') \<and> new \<noteq> ident \<longrightarrow>
      old = ident
      \<and> (\<exists>i. db_instance s ident = Some i
             \<and> db_instance s' new = Some (edited c i img memory cpu new))
      \<and> db_instance s' ident = None
      \<and> (\<forall>k. k \<noteq> new \<and> k \<noteq> ident \<longrightarrow> db_instance s' k = db_instance s k))
   \<and> writes_own_key ident s (snd (reinstall c ru ident s))
   \<and> writes_own_key ident s (snd (rename c ru ident newName s))
   \<and> writes_own_key ident s (snd (changevariable c ru ident variable val s))
   \<and> writes_own_key ident s (snd (changeimage c ru ident newImage usr s))
   \<and> writes_own_key ident s (snd (get_startup c ru ident s))"
proof -
  have e: "edit c ru ident img memory cpu s = (JsonEdited old new x y z, s') \<and> new \<noteq> ident \<longrightarrow>
      old = ident
      \<and> (\<exists>i. db_instance s ident = Some i
             \<and> db_instance s' new = Some (edited c i img memory cpu new))
      \<and> db_instance s' ident = None
      \<and> (\<forall>k. k \<noteq> new \<and> k \<noteq> ident \<longrightarrow> db_instance s' k = db_instance s k)"
  proof (intro impI, elim conjE)
    assume run: "edit c ru ident img memory cpu s = (JsonEdited old new x y z, s')"
      and new: "new \<noteq> ident"
    from run obtain i nd where acc: "edit_accepts c ru ident img memory cpu s i nd new"
      and old: "old = ident"
      by (auto elim!: edit_success)
    have s': "s' = snd (edit c ru ident img memory cpu s)" using run by simp
    have rec: "db_instance s' = ((db_instance s)(new \<mapsto> edited c i img memory cpu new))(ident := None)"
      using edit_result(2) [OF acc] s' by simp
    have i: "db_instance s ident = Some i" using acc by (simp add: edit_accepts_def)
    show "old = ident
      \<and> (\<exists>i. db_instance s ident = Some i
             \<and> db_instance s' new = Some (edited c i img memory cpu new))
      \<and> db_instance s' ident = None
      \<and> (\<forall>k. k \<noteq> new \<and> k \<noteq> ident \<longrightarrow> db_instance s' k = db_instance s k)"
      using old rec i new by simp
  qed
  show ?thesis
    by (intro conjI)
      (rule e reinstall_own_key rename_own_key changevariable_own_key changeimage_own_key
        get_startup_own_key)+
qed

theorem edit_moves_the_record_witness:
  "fst (edit ex_collab (Some ex_user) ''i1'' None (Some 2048) None ex_world)
     = JsonEdited ''i1'' ''c2'' False True False
   \<and> ''c2'' \<noteq> ''i1''
   \<and> db_instance (snd (edit ex_collab (Some ex_user) ''i1'' None (Some 2048) None ex_world)) ''i1''
       = None
   \<and> map_option ContainerId
        (db_instance (snd (edit ex_collab (Some ex_user) ''i1'' None (Some 2048) None ex_world)) ''c2'')
       = Some (Some ''c2'')
   \<and> db_instance ex_world ''c2'' = None"
proof -
  let ?run = "edit ex_collab (Some ex_user) ''i1'' None (Some 2048) None ex_world"
  have ok: "fst ?run = JsonEdited ''i1'' ''c2'' False True False"
    by (simp add: edit_run_defs ex_defs run_defs)
  then have run: "?run = (JsonEdited ''i1'' ''c2'' False True False, snd ?run)"
    by (simp add: prod_eq_iff)
  have new: "''c2'' \<noteq> ''i1''" by simp
  have "db_instance (snd ?run) ''i1'' = None
      \<and> (\<exists>i. db_instance ex_world ''i1'' = Some i
             \<and> db_instance (snd ?run) ''c2'' = Some (edited ex_collab i None (Some 2048) None ''c2''))"
    using edit_moves_the_record [of ex_collab "Some ex_user" "''i1''" None "Some 2048" None ex_world
        "''i1''" "''c2''" False True False "snd ?run"] run new
    by simp
  then show ?thesis using ok by (auto simp: edited_def ex_world_def world_of_def)
qed

section \<open>The three views after a mutation\<close>

lemmas reinstall_run_defs = reinstall_def reinstall_caught_def prepareRequestData_reinstall_def
  updateDatabaseWithNewInstance_reinstall_def instanceData_reinstall_def find_image_def
  add_ports_trim_def add_port_mapping_trim_def trim_def is_space_def no_image_def

text \<open>
  A reinstall leaves the three views in agreement under the unchanged key, with a
  container id that is no longer the key.
\<close>

lemma ex_world_reinstalled_views:
  "views_agree ex_world_reinstalled ''i1''
     (instanceData_reinstall ex_collab (Some [ex_image]) ex_body ''u1'' ex_node ''img/a''
        (Some 1024) (Some 100) (Some ''25565:25565'') (Some ''25565'') (Some ''alpha'') ''i1''
        (Some (EnvArray [''A=1''])))"
  by (simp add: ex_world_reinstalled_def views_agree_def only_entry_def reinstall_run_defs
      ex_defs run_defs)








section \<open>Suspended instances\<close>

lemma reinstall_suspended:
  assumes "db_instance s ident = Some i" "suspended i = Some True"
  shows "snd (reinstall c ru ident s) = s"
    and "ru = Some u \<Longrightarrow> ident \<noteq> [] \<Longrightarrow> isUserAuthorizedForContainer c (userId u) (InstId i) \<Longrightarrow>
         fst (reinstall c ru ident s) = Redirect ''../../instances?err=SUSPENDED''"
  using assms by (auto simp: reinstall_def split: option.splits)

lemma rename_suspended:
  assumes "db_instance s ident = Some i" "suspended i = Some True"
  shows "snd (rename c ru ident newName s) = s"
    and "ru = Some u \<Longrightarrow> ident \<noteq> [] \<Longrightarrow> isUserAuthorizedForContainer c (userId u) (InstId i) \<Longrightarrow>
         newName = Some n \<Longrightarrow> 3 \<le> length n \<Longrightarrow> length n \<le> 32 \<Longrightarrow>
         fst (rename c ru ident newName s) = JsonError 403 ''Instance is suspended''"
  using assms by (auto simp: rename_def Let_def truthy_def tmpl_def split: option.splits)

lemma migrate_suspended_noop:
  "suspended i = Some b \<Longrightarrow> migrate_suspended ident i s = (i, s)"
  by (simp add: migrate_suspended_def)

lemma changevariable_suspended:
  assumes "db_instance s ident = Some i" "suspended i = Some True"
  shows "snd (changevariable c ru ident variable val s) = s"
    and "ru = Some u \<Longrightarrow> ident \<noteq> [] \<Longrightarrow> isUserAuthorizedForContainer c (userId u) (InstId i) \<Longrightarrow>
         truthy variable \<Longrightarrow>
         fst (changevariable c ru ident variable val s) = JsonError 403 ''Instance is suspended''"
  using assms
  by (auto simp: changevariable_def migrate_suspended_noop split: option.splits)

lemma changeimage_suspended:
  assumes "db_instance s ident = Some i" "suspended i = Some True"
  shows "snd (changeimage c ru ident img usr s) = s"
    and "ru = Some u \<Longrightarrow> ident \<noteq> [] \<Longrightarrow> isUserAuthorizedForContainer c (userId u) (InstId i) \<Longrightarrow>
         fst (changeimage c ru ident img usr s) = Redirect (''../../instance/'' @ ident @ ''/suspended'')"
  using assms
  by (auto simp: changeimage_def migrate_suspended_noop split: option.splits)

lemma prepareEdit_ignores_flag:
  "prepareEditRequestData (i\<lparr>suspended := b\<rparr>) nd img memory cpu
     = prepareEditRequestData i nd img memory cpu"
  by (simp add: prepareEditRequestData_def)

lemma edit_ignores_flag:
  assumes "db_instance s ident = Some i"
  shows "fst (edit c ru ident img memory cpu (db_set_instance ident (i\<lparr>suspended := b\<rparr>) s))
           = fst (edit c ru ident img memory cpu s)"
  using assms
  by (simp add: edit_def Let_def if_distrib [of fst] option.case_distrib [of fst]
      agent_reply.case_distrib [of fst] prod.case_distrib [of fst] edit_caught_def
      updateInstanceInDatabase_eq prepareEdit_ignores_flag
      split del: if_split cong: if_cong option.case_cong agent_reply.case_cong)

text \<open>
  C2 (as amended). On an instance whose suspended flag is true, reinstall, rename,
  env-change and image-change leave the world exactly as it was: no request to a node
  agent, no store update, no audit entry. For an authenticated, authorised caller with
  well-formed parameters they answer with the suspended redirect or the 403
  \<^verbatim>\<open>Instance is suspended\<close> error. The edit route does not read the flag: its answer is
  the same whatever the flag's value.
\<close>

theorem suspended_blocks:
  assumes "db_instance s ident = Some i" "suspended i = Some True"
  shows "snd (reinstall c ru ident s) = s
       \<and> snd (rename c ru ident newName s) = s
       \<and> snd (changevariable c ru ident variable val s) = s
       \<and> snd (changeimage c ru ident img usr s) = s
       \<and> (ru = Some u \<and> ident \<noteq> [] \<and> isUserAuthorizedForContainer c (userId u) (InstId i) \<longrightarrow>
            fst (reinstall c ru ident s) = Redirect ''../../instances?err=SUSPENDED''
          \<and> fst (changeimage c ru ident img usr s)
              = Redirect (''../../instance/'' @ ident @ ''/suspended'')
          \<and> (truthy variable \<longrightarrow>
               fst (changevariable c ru ident variable val s)
                 = JsonError 403 ''Instance is suspended'')
          \<and> (newName = Some n \<and> 3 \<le> length n \<and> length n \<le> 32 \<longrightarrow>
               fst (rename c ru ident newName s) = JsonError 403 ''Instance is suspended''))
       \<and> fst (edit c ru ident eimg memory cpu (db_set_instance ident (i\<lparr>suspended := b\<rparr>) s))
           = fst (edit c ru ident eimg memory cpu s)"
  using reinstall_suspended [OF assms] rename_suspended [OF assms]
    changevariable_suspended [OF assms] changeimage_suspended [OF assms]
    edit_ignores_flag [OF assms(1)]
  by simp

theorem suspended_blocks_witness:
  "map_option suspended (db_instance ex_world_suspended ''i1'') = Some (Some True)
   \<and> snd (reinstall ex_collab (Some ex_user) ''i1'' ex_world_suspended) = ex_world_suspended
   \<and> snd (changevariable ex_collab (Some ex_user) ''i1'' (Some ''MODE'') (Some ''fast'')
        ex_world_suspended) = ex_world_suspended
   \<and> snd (changeimage ex_collab (Some ex_user) ''i1'' (Some ''img/b'') (Some ''u1'')
        ex_world_suspended) = ex_world_suspended
   \<and> fst (reinstall ex_collab (Some ex_user) ''i1'' ex_world_suspended)
       = Redirect ''../../instances?err=SUSPENDED''
   \<and> fst (changeimage ex_collab (Some ex_user) ''i1'' (Some ''img/b'') (Some ''u1'')
        ex_world_suspended) = Redirect ''../../instance/i1/suspended''
   \<and> fst (changevariable ex_collab (Some ex_user) ''i1'' (Some ''MODE'') (Some ''fast'')
        ex_world_suspended) = JsonError 403 ''Instance is suspended''
   \<and> rename ex_collab (Some ex_user) ''i1'' (Some ''gamma'') ex_world_suspended
       = (JsonError 403 ''Instance is suspended'', ex_world_suspended)"
proof -
  have pre: "db_instance ex_world_suspended ''i1'' = Some (ex_inst\<lparr>suspended := Some True\<rparr>)"
    "suspended (ex_inst\<lparr>suspended := Some True\<rparr>) = Some True"
    by (simp_all add: ex_world_suspended_def world_of_def)
  have more: "Some ex_user = Some ex_user \<and> ''i1'' \<noteq> []
      \<and> isUserAuthorizedForContainer ex_collab (userId ex_user)
           (InstId (ex_inst\<lparr>suspended := Some True\<rparr>))"
    "truthy (Some ''MODE'')" "Some ''gamma'' = Some ''gamma'' \<and> 3 \<le> length ''gamma'' \<and> length ''gamma'' \<le> 32"
    by (simp_all add: ex_collab_def truthy_def)
  show ?thesis
    using suspended_blocks [OF pre, of ex_collab "Some ex_user" "Some ''gamma''" "Some ''MODE''"
        "Some ''fast''" "Some ''img/b''" "Some ''u1''" ex_user "''gamma''" None None None None]
      pre more
    by (simp add: prod_eq_iff)
qed

text \<open>
  On the suspended instance an edit is carried out (a request is sent and the record is
  moved), and a rename is refused.
\<close>

theorem suspended_edit_goes_through:
  "map_option suspended (db_instance ex_world_suspended ''i1'') = Some (Some True)
   \<and> fst (edit ex_collab (Some ex_user) ''i1'' None (Some 2048) None ex_world_suspended)
       = JsonEdited ''i1'' ''c2'' False True False
   \<and> length (agent_calls (snd (edit ex_collab (Some ex_user) ''i1'' None (Some 2048) None
        ex_world_suspended))) = 1
   \<and> db_instance (snd (edit ex_collab (Some ex_user) ''i1'' None (Some 2048) None
        ex_world_suspended)) ''i1'' = None
   \<and> map_option Memory (db_instance (snd (edit ex_collab (Some ex_user) ''i1'' None (Some 2048)
        None ex_world_suspended)) ''c2'') = Some (Some 2048)
   \<and> agent_calls ex_world_suspended = []
   \<and> fst (rename ex_collab (Some ex_user) ''i1'' (Some ''gamma'') ex_world_suspended)
       = JsonError 403 ''Instance is suspended''"
  by (simp add: edit_run_defs rename_def ex_defs run_defs)

section \<open>The missing suspended flag\<close>

lemma migrate_suspended_missing:
  "suspended i = None \<Longrightarrow>
     migrate_suspended ident i s
       = (i\<lparr>suspended := Some False\<rparr>, db_set_instance ident (i\<lparr>suspended := Some False\<rparr>) s)"
  by (simp add: migrate_suspended_def)

lemma flag_set_differs: "suspended i = None \<Longrightarrow> i\<lparr>suspended := Some False\<rparr> \<noteq> i"
proof
  assume "suspended i = None" and eq: "i\<lparr>suspended := Some False\<rparr> = i"
  from eq have "suspended (i\<lparr>suspended := Some False\<rparr>) = suspended i" by simp
  with \<open>suspended i = None\<close> show False by simp
qed

text \<open>
  C9. The image-change route tests for missing parameters only after it has written the
  migrated record. For an authorised request on a record that lacks the suspended field
  and has a node, a missing image or user parameter is answered with status 400
  \<^verbatim>\<open>Missing parameters\<close>, no request is sent to an agent, and yet the stored record has
  changed: it now has suspended set to false.
\<close>

theorem changeimage_missing_parameters_after_write:
  assumes "ru = Some u" "ident \<noteq> []" "db_instance s ident = Some i" "suspended i = None"
    "isUserAuthorizedForContainer c (userId u) (InstId i)" "Node i = Some nd"
    "\<not> truthy img \<or> \<not> truthy usr"
  shows "changeimage c ru ident img usr s
           = (JsonError 400 ''Missing parameters'',
              db_set_instance ident (i\<lparr>suspended := Some False\<rparr>) s)
       \<and> db_instance (snd (changeimage c ru ident img usr s)) ident
           = Some (i\<lparr>suspended := Some False\<rparr>)
       \<and> db_instance (snd (changeimage c ru ident img usr s)) ident \<noteq> db_instance s ident
       \<and> agent_calls (snd (changeimage c ru ident img usr s)) = agent_calls s"
proof -
  have run: "changeimage c ru ident img usr s
           = (JsonError 400 ''Missing parameters'',
              db_set_instance ident (i\<lparr>suspended := Some False\<rparr>) s)"
    using assms by (auto simp: changeimage_def migrate_suspended_missing)
  show ?thesis
    using flag_set_differs [OF assms(4)] assms(3) by (simp add: run)
qed

theorem changeimage_missing_parameters_after_write_witness:
  "changeimage ex_collab (Some ex_user) ''i1'' None (Some ''u1'') ex_world
     = (JsonError 400 ''Missing parameters'',
        db_set_instance ''i1'' (ex_inst\<lparr>suspended := Some False\<rparr>) ex_world)
   \<and> map_option suspended (db_instance ex_world ''i1'') = Some None
   \<and> map_option suspended
        (db_instance (snd (changeimage ex_collab (Some ex_user) ''i1'' None (Some ''u1'') ex_world))
           ''i1'') = Some (Some False)"
proof -
  have pre: "Some ex_user = Some ex_user" "''i1'' \<noteq> []" "db_instance ex_world ''i1'' = Some ex_inst"
    "suspended ex_inst = None"
    "isUserAuthorizedForContainer ex_collab (userId ex_user) (InstId ex_inst)"
    "Node ex_inst = Some ex_node" "\<not> truthy None \<or> \<not> truthy (Some ''u1'')"
    by (simp_all add: ex_defs truthy_def)
  show ?thesis
    using changeimage_missing_parameters_after_write [OF pre] pre(3,4) by simp
qed

lemma get_startup_keeps_flag:
  assumes "db_instance s ident = Some i" "suspended i = Some False"
  shows "\<exists>r. db_instance (snd (get_startup c ru ident s)) ident = Some r \<and> suspended r = Some False"
  using assms by (auto simp: get_startup_def migrate_suspended_def split: option.splits)

lemma changevariable_keeps_flag:
  assumes "db_instance s ident = Some i" "suspended i = Some False"
  shows "\<exists>r. db_instance (snd (changevariable c ru ident v val s)) ident = Some r
             \<and> suspended r = Some False"
  using assms
  by (auto simp: changevariable_def migrate_suspended_def Let_def
      split: option.splits env_value.splits)

lemma changeimage_keeps_flag:
  assumes "db_instance s ident = Some i" "suspended i = Some False"
  shows "\<exists>r. db_instance (snd (changeimage c ru ident img usr s)) ident = Some r
             \<and> suspended r = Some False"
  using assms
  by (auto simp: changeimage_def migrate_suspended_def Let_def updateDatabaseWithNewInstance_eq
      split: option.splits agent_reply.splits)


lemma get_startup_migrates:
  assumes "ru = Some u" "ident \<noteq> []" "db_instance s ident = Some i" "suspended i = None"
    "isUserAuthorizedForContainer c (userId u) (InstId i)"
  shows "get_startup c ru ident s
           = get_startup c ru ident (db_set_instance ident (i\<lparr>suspended := Some False\<rparr>) s)"
  using assms by (simp add: get_startup_def migrate_suspended_def)

lemma changevariable_migrates:
  assumes "ru = Some u" "ident \<noteq> []" "db_instance s ident = Some i" "suspended i = None"
    "isUserAuthorizedForContainer c (userId u) (InstId i)" "truthy variable"
  shows "changevariable c ru ident variable val s
           = changevariable c ru ident variable val
               (db_set_instance ident (i\<lparr>suspended := Some False\<rparr>) s)"
  using assms by (simp add: changevariable_def migrate_suspended_def)

lemma changeimage_migrates:
  assumes "ru = Some u" "ident \<noteq> []" "db_instance s ident = Some i" "suspended i = None"
    "isUserAuthorizedForContainer c (userId u) (InstId i)"
  shows "changeimage c ru ident img usr s
           = changeimage c ru ident img usr
               (db_set_instance ident (i\<lparr>suspended := Some False\<rparr>) s)"
  using assms by (simp add: changeimage_def migrate_suspended_def)

lemma rename_reads_missing_as_false:
  assumes "db_instance s ident = Some i" "suspended i = None"
  shows "fst (rename c ru ident newName s)
           = fst (rename c ru ident newName
                    (db_set_instance ident (i\<lparr>suspended := Some False\<rparr>) s))"
  using assms
  by (simp add: rename_def Let_def if_distrib [of fst] option.case_distrib [of fst]
      split del: if_split cong: if_cong option.case_cong)

lemma reinstall_reads_missing_as_false:
  assumes "db_instance s ident = Some i" "suspended i = None"
  shows "fst (reinstall c ru ident s)
           = fst (reinstall c ru ident (db_set_instance ident (i\<lparr>suspended := Some False\<rparr>) s))"
  using assms
  by (simp add: reinstall_def Let_def if_distrib [of fst] option.case_distrib [of fst]
      agent_reply.case_distrib [of fst]
      split del: if_split cong: if_cong option.case_cong agent_reply.case_cong)


text \<open>
  C6 (as amended). For an authenticated, authorised caller and a record that lacks the
  suspended field, the startup page, the env-change route (given a variable) and the
  image-change route behave exactly as on the store where the record has suspended set
  to false, and after they have run the record under the key has suspended set to false.
  Rename and reinstall answer as they would with the flag stored as false.
\<close>

theorem missing_flag_is_migrated:
  assumes "ru = Some u" "ident \<noteq> []" "db_instance s ident = Some i" "suspended i = None"
    "isUserAuthorizedForContainer c (userId u) (InstId i)"
  shows "get_startup c ru ident s
           = get_startup c ru ident (db_set_instance ident (i\<lparr>suspended := Some False\<rparr>) s)
       \<and> (\<exists>r. db_instance (snd (get_startup c ru ident s)) ident = Some r
               \<and> suspended r = Some False)
       \<and> (truthy variable \<longrightarrow>
            changevariable c ru ident variable val s
              = changevariable c ru ident variable val
                  (db_set_instance ident (i\<lparr>suspended := Some False\<rparr>) s)
            \<and> (\<exists>r. db_instance (snd (changevariable c ru ident variable val s)) ident = Some r
                    \<and> suspended r = Some False))
       \<and> changeimage c ru ident img usr s
           = changeimage c ru ident img usr
               (db_set_instance ident (i\<lparr>suspended := Some False\<rparr>) s)
       \<and> (\<exists>r. db_instance (snd (changeimage c ru ident img usr s)) ident = Some r
               \<and> suspended r = Some False)
       \<and> fst (rename c ru ident newName s)
           = fst (rename c ru ident newName
                    (db_set_instance ident (i\<lparr>suspended := Some False\<rparr>) s))
       \<and> fst (reinstall c ru ident s)
           = fst (reinstall c ru ident (db_set_instance ident (i\<lparr>suspended := Some False\<rparr>) s))"
proof -
  let ?s0 = "db_set_instance ident (i\<lparr>suspended := Some False\<rparr>) s"
  have rec: "db_instance ?s0 ident = Some (i\<lparr>suspended := Some False\<rparr>)"
    "suspended (i\<lparr>suspended := Some False\<rparr>) = Some False"
    by simp_all
  have g: "get_startup c ru ident s = get_startup c ru ident ?s0"
    by (rule get_startup_migrates [OF assms])
  have g': "\<exists>r. db_instance (snd (get_startup c ru ident s)) ident = Some r
               \<and> suspended r = Some False"
    unfolding g by (rule get_startup_keeps_flag [OF rec])
  have v: "truthy variable \<longrightarrow>
            changevariable c ru ident variable val s = changevariable c ru ident variable val ?s0
            \<and> (\<exists>r. db_instance (snd (changevariable c ru ident variable val s)) ident = Some r
                    \<and> suspended r = Some False)"
  proof
    assume t: "truthy variable"
    have e: "changevariable c ru ident variable val s = changevariable c ru ident variable val ?s0"
      by (rule changevariable_migrates [OF assms t])
    show "changevariable c ru ident variable val s = changevariable c ru ident variable val ?s0
            \<and> (\<exists>r. db_instance (snd (changevariable c ru ident variable val s)) ident = Some r
                    \<and> suspended r = Some False)"
      using changevariable_keeps_flag [OF rec, of c ru variable val] e by simp
  qed
  have m: "changeimage c ru ident img usr s = changeimage c ru ident img usr ?s0"
    by (rule changeimage_migrates [OF assms])
  have m': "\<exists>r. db_instance (snd (changeimage c ru ident img usr s)) ident = Some r
               \<and> suspended r = Some False"
    unfolding m by (rule changeimage_keeps_flag [OF rec])
  show ?thesis
    using g g' v m m' rename_reads_missing_as_false [OF assms(3,4), of c ru newName]
      reinstall_reads_missing_as_false [OF assms(3,4), of c ru]
    by (intro conjI) assumption+
qed

theorem missing_flag_is_migrated_witness:
  "map_option suspended (db_instance ex_world ''i1'') = Some None
   \<and> map_option suspended (db_instance (snd (get_startup ex_collab (Some ex_user) ''i1'' ex_world))
        ''i1'') = Some (Some False)
   \<and> map_option suspended (db_instance (snd (changevariable ex_collab (Some ex_user) ''i1''
        (Some ''MODE'') (Some ''fast'') ex_world)) ''i1'') = Some (Some False)
   \<and> map_option suspended (db_instance (snd (changeimage ex_collab (Some ex_user) ''i1''
        (Some ''img/b'') (Some ''u1'') ex_world)) ''i1'') = Some (Some False)"
proof -
  have pre: "Some ex_user = Some ex_user" "''i1'' \<noteq> []" "db_instance ex_world ''i1'' = Some ex_inst"
    "suspended ex_inst = None"
    "isUserAuthorizedForContainer ex_collab (userId ex_user) (InstId ex_inst)"
    by (simp_all add: ex_defs)
  have t: "truthy (Some ''MODE'')" by (simp add: truthy_def)
  show ?thesis
    using missing_flag_is_migrated [OF pre, of "Some ''MODE''" "Some ''fast''" "Some ''img/b''"
        "Some ''u1''" None] pre(3,4) t
    by auto
qed

text \<open>
  Rename and reinstall do not write the flag: after a successful run on a record without
  it, the stored record still has none.
\<close>

theorem rename_leaves_flag_missing:
  "map_option suspended (db_instance ex_world ''i1'') = Some None
   \<and> fst (rename ex_collab (Some ex_user) ''i1'' (Some ''gamma'') ex_world) = JsonSuccess
   \<and> map_option suspended (db_instance (snd (rename ex_collab (Some ex_user) ''i1''
        (Some ''gamma'') ex_world)) ''i1'') = Some None
   \<and> fst (reinstall ex_collab (Some ex_user) ''i1'' ex_world)
       = StatusRedirect 201 ''../../instance/i1''
   \<and> map_option suspended (db_instance (snd (reinstall ex_collab (Some ex_user) ''i1''
        ex_world)) ''i1'') = Some None"
  by (simp add: rename_def notify_rename_def reinstall_run_defs ex_defs run_defs)

end
